theory Spec2Isabelle
  imports Complex_Main "HOL-Library.Sublist"
begin

section \<open>JavaScript values used by the chat endpoint\<close>

text \<open>
  A JavaScript string is a sequence of UTF-16 code units; a code unit is modelled as
  its integer value, so that \<open>length\<close> is the source's \<open>.length\<close>. \<open>str\<close> turns an ASCII
  literal into such a string; the few non-ASCII characters of the source's literals are
  written as code units.
\<close>

type_synonym jschar = int
type_synonym jsstring = "jschar list"

definition str :: "string \<Rightarrow> jsstring" where
  "str s = map of_char s"

abbreviation (input) NEWLINE :: jschar where "NEWLINE \<equiv> 10"
abbreviation (input) QUOTE :: jschar where "QUOTE \<equiv> 34"
abbreviation (input) DOLLAR :: jschar where "DOLLAR \<equiv> 36"
abbreviation (input) PLUS :: jschar where "PLUS \<equiv> 43"
abbreviation (input) COMMA :: jschar where "COMMA \<equiv> 44"
abbreviation (input) MINUS :: jschar where "MINUS \<equiv> 45"
abbreviation (input) DOT :: jschar where "DOT \<equiv> 46"

text \<open>
  White space as \<open>String.prototype.trim\<close>, \<open>parseInt\<close>, \<open>parseFloat\<close> and the
  regular-expression class \<open>\s\<close> understand it: the WhiteSpace and LineTerminator code
  points of ECMAScript.
\<close>

definition isWhiteSpace :: "jschar \<Rightarrow> bool" where
  "isWhiteSpace c \<longleftrightarrow>
     (9 \<le> c \<and> c \<le> 13) \<or> c = 32 \<or> c = 160 \<or> c = 5760 \<or> (8192 \<le> c \<and> c \<le> 8202) \<or>
     c = 8232 \<or> c = 8233 \<or> c = 8239 \<or> c = 8287 \<or> c = 12288 \<or> c = 65279"

definition isDigit :: "jschar \<Rightarrow> bool" where
  "isDigit c \<longleftrightarrow> 48 \<le> c \<and> c \<le> 57"

definition trim :: "jsstring \<Rightarrow> jsstring" where
  "trim s = rev (dropWhile isWhiteSpace (rev (dropWhile isWhiteSpace s)))"

text \<open>
  \<open>s.split(sep)\<close> for a separator of one code unit: the pieces between the separators,
  at least one piece (the empty string splits into one empty piece).
\<close>

fun split_loop :: "jschar \<Rightarrow> jsstring \<Rightarrow> jsstring \<Rightarrow> jsstring list" where
  "split_loop sep cur [] = [cur]"
| "split_loop sep cur (c # cs) =
     (if c = sep then cur # split_loop sep [] cs else split_loop sep (cur @ [c]) cs)"

definition js_split :: "jsstring \<Rightarrow> jschar \<Rightarrow> jsstring list" where
  "js_split s sep = split_loop sep [] s"

text \<open>
  \<open>toLowerCase\<close> is the default case conversion of Unicode on the code points of the
  string (\<open>StringToCodePoints\<close>: a high surrogate followed by a low one is one code
  point, a lone surrogate is a code point of its own). The tables are those of the
  Unicode Character Database, version 14.0: \<open>lowerRuns\<close> holds the simple lowercase
  mappings as runs \<open>(first, last, step, offset)\<close>, in ascending order;
  \<open>caseIgnorableRanges\<close> holds the case-ignorable code points and \<open>casedRanges\<close> the
  cased code points that are not case-ignorable, as ranges in ascending order. The two
  mappings of \<open>SpecialCasing\<close> that do not depend on the language are written out:
  U+0130 becomes \<open>i\<close> and U+0307, and capital sigma becomes final sigma when a cased
  letter stands before it and none after it, case-ignorable code points skipped.
\<close>

fun toCodePoints :: "jsstring \<Rightarrow> int list" where
  "toCodePoints [] = []"
| "toCodePoints [c] = [c]"
| "toCodePoints (a # b # cs) =
     (if 55296 \<le> a \<and> a \<le> 56319 \<and> 56320 \<le> b \<and> b \<le> 57343
      then (65536 + (a - 55296) * 1024 + (b - 56320)) # toCodePoints cs
      else a # toCodePoints (b # cs))"

definition fromCodePoint :: "int \<Rightarrow> jsstring" where
  "fromCodePoint c =
     (if 65536 \<le> c then [55296 + (c - 65536) div 1024, 56320 + (c - 65536) mod 1024] else [c])"

definition lowerRuns :: "(int \<times> int \<times> int \<times> int) list" where
  "lowerRuns =
     [
      (65, 90, 1, 32), (192, 214, 1, 32), (216, 222, 1, 32), (256, 302, 2, 1),
      (306, 310, 2, 1), (313, 327, 2, 1), (330, 374, 2, 1), (376, 376, 1, - 121),
      (377, 381, 2, 1), (385, 385, 1, 210), (386, 388, 2, 1), (390, 390, 1, 206),
      (391, 391, 1, 1), (393, 394, 1, 205), (395, 395, 1, 1), (398, 398, 1, 79),
      (399, 399, 1, 202), (400, 400, 1, 203), (401, 401, 1, 1), (403, 403, 1, 205),
      (404, 404, 1, 207), (406, 406, 1, 211), (407, 407, 1, 209), (408, 408, 1, 1),
      (412, 412, 1, 211), (413, 413, 1, 213), (415, 415, 1, 214), (416, 420, 2, 1),
      (422, 422, 1, 218), (423, 423, 1, 1), (425, 425, 1, 218), (428, 428, 1, 1),
      (430, 430, 1, 218), (431, 431, 1, 1), (433, 434, 1, 217), (435, 437, 2, 1),
      (439, 439, 1, 219), (440, 440, 1, 1), (444, 444, 1, 1), (452, 452, 1, 2),
      (453, 453, 1, 1), (455, 455, 1, 2), (456, 456, 1, 1), (458, 458, 1, 2),
      (459, 475, 2, 1), (478, 494, 2, 1), (497, 497, 1, 2), (498, 500, 2, 1),
      (502, 502, 1, - 97), (503, 503, 1, - 56), (504, 542, 2, 1), (544, 544, 1, - 130),
      (546, 562, 2, 1), (570, 570, 1, 10795), (571, 571, 1, 1), (573, 573, 1, - 163),
      (574, 574, 1, 10792), (577, 577, 1, 1), (579, 579, 1, - 195), (580, 580, 1, 69),
      (581, 581, 1, 71), (582, 590, 2, 1), (880, 882, 2, 1), (886, 886, 1, 1),
      (895, 895, 1, 116), (902, 902, 1, 38), (904, 906, 1, 37), (908, 908, 1, 64),
      (910, 911, 1, 63), (913, 929, 1, 32), (931, 939, 1, 32), (975, 975, 1, 8),
      (984, 1006, 2, 1), (1012, 1012, 1, - 60), (1015, 1015, 1, 1), (1017, 1017, 1, - 7),
      (1018, 1018, 1, 1), (1021, 1023, 1, - 130), (1024, 1039, 1, 80), (1040, 1071, 1, 32),
      (1120, 1152, 2, 1), (1162, 1214, 2, 1), (1216, 1216, 1, 15), (1217, 1229, 2, 1),
      (1232, 1326, 2, 1), (1329, 1366, 1, 48), (4256, 4293, 1, 7264), (4295, 4295, 1, 7264),
      (4301, 4301, 1, 7264), (5024, 5103, 1, 38864), (5104, 5109, 1, 8), (7312, 7354, 1, - 3008),
      (7357, 7359, 1, - 3008), (7680, 7828, 2, 1), (7838, 7838, 1, - 7615), (7840, 7934, 2, 1),
      (7944, 7951, 1, - 8), (7960, 7965, 1, - 8), (7976, 7983, 1, - 8), (7992, 7999, 1, - 8),
      (8008, 8013, 1, - 8), (8025, 8031, 2, - 8), (8040, 8047, 1, - 8), (8072, 8079, 1, - 8),
      (8088, 8095, 1, - 8), (8104, 8111, 1, - 8), (8120, 8121, 1, - 8), (8122, 8123, 1, - 74),
      (8124, 8124, 1, - 9), (8136, 8139, 1, - 86), (8140, 8140, 1, - 9), (8152, 8153, 1, - 8),
      (8154, 8155, 1, - 100), (8168, 8169, 1, - 8), (8170, 8171, 1, - 112), (8172, 8172, 1, - 7),
      (8184, 8185, 1, - 128), (8186, 8187, 1, - 126), (8188, 8188, 1, - 9), (8486, 8486, 1, - 7517),
      (8490, 8490, 1, - 8383), (8491, 8491, 1, - 8262), (8498, 8498, 1, 28), (8544, 8559, 1, 16),
      (8579, 8579, 1, 1), (9398, 9423, 1, 26), (11264, 11311, 1, 48), (11360, 11360, 1, 1),
      (11362, 11362, 1, - 10743), (11363, 11363, 1, - 3814), (11364, 11364, 1, - 10727), (11367, 11371, 2, 1),
      (11373, 11373, 1, - 10780), (11374, 11374, 1, - 10749), (11375, 11375, 1, - 10783), (11376, 11376, 1, - 10782),
      (11378, 11378, 1, 1), (11381, 11381, 1, 1), (11390, 11391, 1, - 10815), (11392, 11490, 2, 1),
      (11499, 11501, 2, 1), (11506, 11506, 1, 1), (42560, 42604, 2, 1), (42624, 42650, 2, 1),
      (42786, 42798, 2, 1), (42802, 42862, 2, 1), (42873, 42875, 2, 1), (42877, 42877, 1, - 35332),
      (42878, 42886, 2, 1), (42891, 42891, 1, 1), (42893, 42893, 1, - 42280), (42896, 42898, 2, 1),
      (42902, 42920, 2, 1), (42922, 42922, 1, - 42308), (42923, 42923, 1, - 42319), (42924, 42924, 1, - 42315),
      (42925, 42925, 1, - 42305), (42926, 42926, 1, - 42308), (42928, 42928, 1, - 42258), (42929, 42929, 1, - 42282),
      (42930, 42930, 1, - 42261), (42931, 42931, 1, 928), (42932, 42946, 2, 1), (42948, 42948, 1, - 48),
      (42949, 42949, 1, - 42307), (42950, 42950, 1, - 35384), (42951, 42953, 2, 1), (42960, 42960, 1, 1),
      (42966, 42968, 2, 1), (42997, 42997, 1, 1), (65313, 65338, 1, 32), (66560, 66599, 1, 40),
      (66736, 66771, 1, 40), (66928, 66938, 1, 39), (66940, 66954, 1, 39), (66956, 66962, 1, 39),
      (66964, 66965, 1, 39), (68736, 68786, 1, 64), (71840, 71871, 1, 32), (93760, 93791, 1, 32),
      (125184, 125217, 1, 34)
     ]"

definition caseIgnorableRanges :: "(int \<times> int) list" where
  "caseIgnorableRanges =
     [
      (39, 39), (46, 46), (58, 58), (94, 94), (96, 96),
      (168, 168), (173, 173), (175, 175), (180, 180), (183, 184),
      (688, 879), (884, 885), (890, 890), (900, 901), (903, 903),
      (1155, 1161), (1369, 1369), (1375, 1375), (1425, 1469), (1471, 1471),
      (1473, 1474), (1476, 1477), (1479, 1479), (1524, 1524), (1536, 1541),
      (1552, 1562), (1564, 1564), (1600, 1600), (1611, 1631), (1648, 1648),
      (1750, 1757), (1759, 1768), (1770, 1773), (1807, 1807), (1809, 1809),
      (1840, 1866), (1958, 1968), (2027, 2037), (2042, 2042), (2045, 2045),
      (2070, 2093), (2137, 2139), (2184, 2184), (2192, 2193), (2200, 2207),
      (2249, 2306), (2362, 2362), (2364, 2364), (2369, 2376), (2381, 2381),
      (2385, 2391), (2402, 2403), (2417, 2417), (2433, 2433), (2492, 2492),
      (2497, 2500), (2509, 2509), (2530, 2531), (2558, 2558), (2561, 2562),
      (2620, 2620), (2625, 2626), (2631, 2632), (2635, 2637), (2641, 2641),
      (2672, 2673), (2677, 2677), (2689, 2690), (2748, 2748), (2753, 2757),
      (2759, 2760), (2765, 2765), (2786, 2787), (2810, 2815), (2817, 2817),
      (2876, 2876), (2879, 2879), (2881, 2884), (2893, 2893), (2901, 2902),
      (2914, 2915), (2946, 2946), (3008, 3008), (3021, 3021), (3072, 3072),
      (3076, 3076), (3132, 3132), (3134, 3136), (3142, 3144), (3146, 3149),
      (3157, 3158), (3170, 3171), (3201, 3201), (3260, 3260), (3263, 3263),
      (3270, 3270), (3276, 3277), (3298, 3299), (3328, 3329), (3387, 3388),
      (3393, 3396), (3405, 3405), (3426, 3427), (3457, 3457), (3530, 3530),
      (3538, 3540), (3542, 3542), (3633, 3633), (3636, 3642), (3654, 3662),
      (3761, 3761), (3764, 3772), (3782, 3782), (3784, 3789), (3864, 3865),
      (3893, 3893), (3895, 3895), (3897, 3897), (3953, 3966), (3968, 3972),
      (3974, 3975), (3981, 3991), (3993, 4028), (4038, 4038), (4141, 4144),
      (4146, 4151), (4153, 4154), (4157, 4158), (4184, 4185), (4190, 4192),
      (4209, 4212), (4226, 4226), (4229, 4230), (4237, 4237), (4253, 4253),
      (4348, 4348), (4957, 4959), (5906, 5908), (5938, 5939), (5970, 5971),
      (6002, 6003), (6068, 6069), (6071, 6077), (6086, 6086), (6089, 6099),
      (6103, 6103), (6109, 6109), (6155, 6159), (6211, 6211), (6277, 6278),
      (6313, 6313), (6432, 6434), (6439, 6440), (6450, 6450), (6457, 6459),
      (6679, 6680), (6683, 6683), (6742, 6742), (6744, 6750), (6752, 6752),
      (6754, 6754), (6757, 6764), (6771, 6780), (6783, 6783), (6823, 6823),
      (6832, 6862), (6912, 6915), (6964, 6964), (6966, 6970), (6972, 6972),
      (6978, 6978), (7019, 7027), (7040, 7041), (7074, 7077), (7080, 7081),
      (7083, 7085), (7142, 7142), (7144, 7145), (7149, 7149), (7151, 7153),
      (7212, 7219), (7222, 7223), (7288, 7293), (7376, 7378), (7380, 7392),
      (7394, 7400), (7405, 7405), (7412, 7412), (7416, 7417), (7468, 7530),
      (7544, 7544), (7579, 7679), (8125, 8125), (8127, 8129), (8141, 8143),
      (8157, 8159), (8173, 8175), (8189, 8190), (8203, 8207), (8216, 8217),
      (8228, 8228), (8231, 8231), (8234, 8238), (8288, 8292), (8294, 8303),
      (8305, 8305), (8319, 8319), (8336, 8348), (8400, 8432), (11388, 11389),
      (11503, 11505), (11631, 11631), (11647, 11647), (11744, 11775), (11823, 11823),
      (12293, 12293), (12330, 12333), (12337, 12341), (12347, 12347), (12441, 12446),
      (12540, 12542), (40981, 40981), (42232, 42237), (42508, 42508), (42607, 42610),
      (42612, 42621), (42623, 42623), (42652, 42655), (42736, 42737), (42752, 42785),
      (42864, 42864), (42888, 42890), (42994, 42996), (43000, 43001), (43010, 43010),
      (43014, 43014), (43019, 43019), (43045, 43046), (43052, 43052), (43204, 43205),
      (43232, 43249), (43263, 43263), (43302, 43309), (43335, 43345), (43392, 43394),
      (43443, 43443), (43446, 43449), (43452, 43453), (43471, 43471), (43493, 43494),
      (43561, 43566), (43569, 43570), (43573, 43574), (43587, 43587), (43596, 43596),
      (43632, 43632), (43644, 43644), (43696, 43696), (43698, 43700), (43703, 43704),
      (43710, 43711), (43713, 43713), (43741, 43741), (43756, 43757), (43763, 43764),
      (43766, 43766), (43867, 43871), (43881, 43883), (44005, 44005), (44008, 44008),
      (44013, 44013), (64286, 64286), (64434, 64450), (65024, 65039), (65043, 65043),
      (65056, 65071), (65106, 65106), (65109, 65109), (65279, 65279), (65287, 65287),
      (65294, 65294), (65306, 65306), (65342, 65342), (65344, 65344), (65392, 65392),
      (65438, 65439), (65507, 65507), (65529, 65531), (66045, 66045), (66272, 66272),
      (66422, 66426), (67456, 67461), (67463, 67504), (67506, 67514), (68097, 68099),
      (68101, 68102), (68108, 68111), (68152, 68154), (68159, 68159), (68325, 68326),
      (68900, 68903), (69291, 69292), (69446, 69456), (69506, 69509), (69633, 69633),
      (69688, 69702), (69744, 69744), (69747, 69748), (69759, 69761), (69811, 69814),
      (69817, 69818), (69821, 69821), (69826, 69826), (69837, 69837), (69888, 69890),
      (69927, 69931), (69933, 69940), (70003, 70003), (70016, 70017), (70070, 70078),
      (70089, 70092), (70095, 70095), (70191, 70193), (70196, 70196), (70198, 70199),
      (70206, 70206), (70367, 70367), (70371, 70378), (70400, 70401), (70459, 70460),
      (70464, 70464), (70502, 70508), (70512, 70516), (70712, 70719), (70722, 70724),
      (70726, 70726), (70750, 70750), (70835, 70840), (70842, 70842), (70847, 70848),
      (70850, 70851), (71090, 71093), (71100, 71101), (71103, 71104), (71132, 71133),
      (71219, 71226), (71229, 71229), (71231, 71232), (71339, 71339), (71341, 71341),
      (71344, 71349), (71351, 71351), (71453, 71455), (71458, 71461), (71463, 71467),
      (71727, 71735), (71737, 71738), (71995, 71996), (71998, 71998), (72003, 72003),
      (72148, 72151), (72154, 72155), (72160, 72160), (72193, 72202), (72243, 72248),
      (72251, 72254), (72263, 72263), (72273, 72278), (72281, 72283), (72330, 72342),
      (72344, 72345), (72752, 72758), (72760, 72765), (72767, 72767), (72850, 72871),
      (72874, 72880), (72882, 72883), (72885, 72886), (73009, 73014), (73018, 73018),
      (73020, 73021), (73023, 73029), (73031, 73031), (73104, 73105), (73109, 73109),
      (73111, 73111), (73459, 73460), (78896, 78904), (92912, 92916), (92976, 92982),
      (92992, 92995), (94031, 94031), (94095, 94111), (94176, 94177), (94179, 94180),
      (110576, 110579), (110581, 110587), (110589, 110590), (113821, 113822), (113824, 113827),
      (118528, 118573), (118576, 118598), (119143, 119145), (119155, 119170), (119173, 119179),
      (119210, 119213), (119362, 119364), (121344, 121398), (121403, 121452), (121461, 121461),
      (121476, 121476), (121499, 121503), (121505, 121519), (122880, 122886), (122888, 122904),
      (122907, 122913), (122915, 122916), (122918, 122922), (123184, 123197), (123566, 123566),
      (123628, 123631), (125136, 125142), (125252, 125259), (127995, 127999), (917505, 917505),
      (917536, 917631), (917760, 917999)
     ]"

definition casedRanges :: "(int \<times> int) list" where
  "casedRanges =
     [
      (65, 90), (97, 122), (170, 170), (181, 181), (186, 186),
      (192, 214), (216, 246), (248, 442), (444, 447), (452, 659),
      (661, 687), (880, 883), (886, 887), (891, 893), (895, 895),
      (902, 902), (904, 906), (908, 908), (910, 929), (931, 1013),
      (1015, 1153), (1162, 1327), (1329, 1366), (1376, 1416), (4256, 4293),
      (4295, 4295), (4301, 4301), (4304, 4346), (4349, 4351), (5024, 5109),
      (5112, 5117), (7296, 7304), (7312, 7354), (7357, 7359), (7424, 7467),
      (7531, 7543), (7545, 7578), (7680, 7957), (7960, 7965), (7968, 8005),
      (8008, 8013), (8016, 8023), (8025, 8025), (8027, 8027), (8029, 8029),
      (8031, 8061), (8064, 8116), (8118, 8124), (8126, 8126), (8130, 8132),
      (8134, 8140), (8144, 8147), (8150, 8155), (8160, 8172), (8178, 8180),
      (8182, 8188), (8450, 8450), (8455, 8455), (8458, 8467), (8469, 8469),
      (8473, 8477), (8484, 8484), (8486, 8486), (8488, 8488), (8490, 8493),
      (8495, 8500), (8505, 8505), (8508, 8511), (8517, 8521), (8526, 8526),
      (8544, 8575), (8579, 8580), (9398, 9449), (11264, 11387), (11390, 11492),
      (11499, 11502), (11506, 11507), (11520, 11557), (11559, 11559), (11565, 11565),
      (42560, 42605), (42624, 42651), (42786, 42863), (42865, 42887), (42891, 42894),
      (42896, 42954), (42960, 42961), (42963, 42963), (42965, 42969), (42997, 42998),
      (43002, 43002), (43824, 43866), (43872, 43880), (43888, 43967), (64256, 64262),
      (64275, 64279), (65313, 65338), (65345, 65370), (66560, 66639), (66736, 66771),
      (66776, 66811), (66928, 66938), (66940, 66954), (66956, 66962), (66964, 66965),
      (66967, 66977), (66979, 66993), (66995, 67001), (67003, 67004), (68736, 68786),
      (68800, 68850), (71840, 71903), (93760, 93823), (119808, 119892), (119894, 119964),
      (119966, 119967), (119970, 119970), (119973, 119974), (119977, 119980), (119982, 119993),
      (119995, 119995), (119997, 120003), (120005, 120069), (120071, 120074), (120077, 120084),
      (120086, 120092), (120094, 120121), (120123, 120126), (120128, 120132), (120134, 120134),
      (120138, 120144), (120146, 120485), (120488, 120512), (120514, 120538), (120540, 120570),
      (120572, 120596), (120598, 120628), (120630, 120654), (120656, 120686), (120688, 120712),
      (120714, 120744), (120746, 120770), (120772, 120779), (122624, 122633), (122635, 122654),
      (125184, 125251), (127280, 127305), (127312, 127337), (127344, 127369)
     ]"

fun lowerMapped :: "(int \<times> int \<times> int \<times> int) list \<Rightarrow> int \<Rightarrow> int" where
  "lowerMapped [] c = c"
| "lowerMapped ((lo, hi, step, offset) # runs) c =
     (if c < lo then c
      else if c \<le> hi \<and> (c - lo) mod step = 0 then c + offset
      else lowerMapped runs c)"

fun inRanges :: "(int \<times> int) list \<Rightarrow> int \<Rightarrow> bool" where
  "inRanges [] c = False"
| "inRanges ((lo, hi) # ranges) c =
     (if c < lo then False else if c \<le> hi then True else inRanges ranges c)"

definition casedAhead :: "int list \<Rightarrow> bool" where
  "casedAhead cps =
     (case dropWhile (inRanges caseIgnorableRanges) cps of
        [] \<Rightarrow> False
      | c # cs \<Rightarrow> inRanges casedRanges c)"

text \<open>\<open>seen\<close> holds the code points already read, the nearest first.\<close>

fun lowerCodePoints :: "int list \<Rightarrow> int list \<Rightarrow> int list" where
  "lowerCodePoints seen [] = []"
| "lowerCodePoints seen (c # cs) =
     (if c = 304 then [105, 775]
      else if c = 931 then [if casedAhead seen \<and> \<not> casedAhead cs then 962 else 963]
      else [lowerMapped lowerRuns c]) @
     lowerCodePoints (c # seen) cs"

definition toLowerCase :: "jsstring \<Rightarrow> jsstring" where
  "toLowerCase s = concat (map fromCodePoint (lowerCodePoints [] (toCodePoints s)))"

fun startsWith :: "jsstring \<Rightarrow> jsstring \<Rightarrow> bool" where
  "startsWith s [] = True"
| "startsWith [] (p # ps) = False"
| "startsWith (c # cs) (p # ps) = (c = p \<and> startsWith cs ps)"

fun js_includes :: "jsstring \<Rightarrow> jsstring \<Rightarrow> bool" where
  "js_includes [] sub = (sub = [])"
| "js_includes (c # cs) sub = (startsWith (c # cs) sub \<or> js_includes cs sub)"

text \<open>
  A JavaScript string is falsy exactly when it is empty; \<open>undefined\<close> and \<open>null\<close> are
  \<open>None\<close>. \<open>orEmpty v\<close> is the source's \<open>v || ''\<close>.
\<close>

definition truthy :: "jsstring option \<Rightarrow> bool" where
  "truthy v = (case v of None \<Rightarrow> False | Some s \<Rightarrow> s \<noteq> [])"

definition orEmpty :: "jsstring option \<Rightarrow> jsstring" where
  "orEmpty v = (case v of None \<Rightarrow> [] | Some s \<Rightarrow> s)"

subsection \<open>Numbers\<close>

text \<open>
  A number is NaN, an infinity or a finite value, held as the rational it stands for.
  \<open>toDouble\<close> rounds a rational to the nearest double, ties to the even significand
  (IEEE 754 binary64: 53 bits, least exponent \<open>-1074\<close>), to an infinity from \<open>2^1024\<close>
  on and to zero below half the least subnormal.
\<close>

datatype jsnum = NaN | Fin rat | PosInf | NegInf

fun num_lt :: "jsnum \<Rightarrow> jsnum \<Rightarrow> bool" where
  "num_lt NaN b = False"
| "num_lt a NaN = False"
| "num_lt (Fin x) (Fin y) = (x < y)"
| "num_lt (Fin x) PosInf = True"
| "num_lt (Fin x) NegInf = False"
| "num_lt PosInf b = False"
| "num_lt NegInf NegInf = False"
| "num_lt NegInf b = True"

definition num_gt :: "jsnum \<Rightarrow> jsnum \<Rightarrow> bool" where
  "num_gt a b = num_lt b a"

definition num_le :: "jsnum \<Rightarrow> jsnum \<Rightarrow> bool" where
  "num_le a b = (a \<noteq> NaN \<and> b \<noteq> NaN \<and> \<not> num_lt b a)"

text \<open>\<open>if (n)\<close> on a number: zero and NaN are falsy.\<close>

definition num_truthy :: "jsnum \<Rightarrow> bool" where
  "num_truthy n = (n \<noteq> NaN \<and> n \<noteq> Fin 0)"

text \<open>
  An optional parameter \<open>maxPrice?: number\<close> is \<open>None\<close> when the caller leaves it out.
  \<open>ceilingGiven\<close> is the source's test \<open>maxPrice\<close> in a condition (\<open>!maxPrice\<close> is its
  negation): the parameter is present and truthy.
\<close>

definition ceilingGiven :: "jsnum option \<Rightarrow> bool" where
  "ceilingGiven maxPrice = (case maxPrice of None \<Rightarrow> False | Some n \<Rightarrow> num_truthy n)"

function bitLength :: "int \<Rightarrow> int" where
  "bitLength n = (if n \<le> 0 then 0 else 1 + bitLength (n div 2))"
  by pat_completeness auto
termination
  by (relation "measure nat") auto

declare bitLength.simps [simp del]

definition pow2 :: "int \<Rightarrow> rat" where
  "pow2 e = (if 0 \<le> e then of_int (2 ^ nat e) else 1 / of_int (2 ^ nat (- e)))"

text \<open>The exponent \<open>e\<close> with \<open>2^e \<le> a < 2^(e+1)\<close>, for a positive \<open>a\<close>.\<close>

definition binaryExponent :: "rat \<Rightarrow> int" where
  "binaryExponent a =
     (let e0 = bitLength (fst (quotient_of a)) - bitLength (snd (quotient_of a))
      in if pow2 e0 \<le> a then e0 else e0 - 1)"

definition roundHalfEven :: "rat \<Rightarrow> int" where
  "roundHalfEven x =
     (let f = \<lfloor>x\<rfloor>; r = x - of_int f
      in if r < 1 / 2 then f else if 1 / 2 < r then f + 1 else if even f then f else f + 1)"

definition toDouble :: "rat \<Rightarrow> jsnum" where
  "toDouble x =
     (if x = 0 then Fin 0
      else
        let a = \<bar>x\<bar>;
            e = binaryExponent a;
            q = max (e - 52) (- 1074);
            v = of_int (roundHalfEven (a / pow2 q)) * pow2 q
        in if e < 1023 then Fin (if x < 0 then - v else v)
           else if pow2 1024 \<le> v then (if x < 0 then NegInf else PosInf)
           else Fin (if x < 0 then - v else v))"

definition digitsValue :: "jsstring \<Rightarrow> int" where
  "digitsValue ds = fold (\<lambda>c a. a * 10 + (c - 48)) ds 0"

text \<open>
  \<open>parseFloat\<close>: leading white space is skipped, then the longest prefix that is a
  decimal literal (sign, \<open>Infinity\<close> or digits with an optional fraction and exponent)
  is read; no such prefix gives NaN. The value read is rounded to the nearest double
  (beyond 20 significant digits the language leaves the last bit to the engine; the
  engines round correctly).
\<close>

definition exponentPart :: "jsstring \<Rightarrow> int" where
  "exponentPart r =
     (case r of
        [] \<Rightarrow> 0
      | e # r1 \<Rightarrow>
          if e = 101 \<or> e = 69 then
            (case r1 of
               [] \<Rightarrow> 0
             | s # r2 \<Rightarrow>
                 if s = MINUS then
                   (if takeWhile isDigit r2 = [] then 0 else - digitsValue (takeWhile isDigit r2))
                 else if s = PLUS then
                   (if takeWhile isDigit r2 = [] then 0 else digitsValue (takeWhile isDigit r2))
                 else digitsValue (takeWhile isDigit r1))
          else 0)"

definition scale10 :: "rat \<Rightarrow> int \<Rightarrow> rat" where
  "scale10 x e = (if 0 \<le> e then x * 10 ^ nat e else x / 10 ^ nat (- e))"

definition parseFloat :: "jsstring \<Rightarrow> jsnum" where
  "parseFloat s =
     (let t = dropWhile isWhiteSpace s;
          negative = startsWith t [MINUS];
          u = (if startsWith t [MINUS] \<or> startsWith t [PLUS] then tl t else t)
      in if startsWith u (str ''Infinity'') then (if negative then NegInf else PosInf)
         else
           let ip = takeWhile isDigit u;
               r1 = dropWhile isDigit u;
               hasDot = startsWith r1 [DOT];
               fp = (if hasDot then takeWhile isDigit (tl r1) else []);
               r2 = (if hasDot then dropWhile isDigit (tl r1) else r1)
           in if ip = [] \<and> fp = [] then NaN
              else
                let m = of_int (digitsValue ip) + of_int (digitsValue fp) / 10 ^ length fp;
                    v = scale10 m (exponentPart r2)
                in toDouble (if negative then - v else v))"

text \<open>
  \<open>parseInt\<close> with no radix: leading white space and a sign are skipped, a prefix
  \<open>0x\<close> or \<open>0X\<close> selects radix 16, then the longest run of digits of the radix is read;
  an empty run gives NaN (\<open>None\<close>). The result is kept as an exact integer: it is used
  only as an array index.
\<close>

definition digitVal :: "jschar \<Rightarrow> int" where
  "digitVal c =
     (if 48 \<le> c \<and> c \<le> 57 then c - 48
      else if 97 \<le> c \<and> c \<le> 122 then c - 87
      else if 65 \<le> c \<and> c \<le> 90 then c - 55
      else 36)"

definition parseInt :: "jsstring \<Rightarrow> int option" where
  "parseInt s =
     (let t = dropWhile isWhiteSpace s;
          negative = startsWith t [MINUS];
          u = (if startsWith t [MINUS] \<or> startsWith t [PLUS] then tl t else t);
          hex = (startsWith u (str ''0x'') \<or> startsWith u (str ''0X''));
          R = (if hex then 16 else 10);
          z = takeWhile (\<lambda>c. digitVal c < R) (if hex then drop 2 u else u);
          n = fold (\<lambda>c a. a * R + digitVal c) z 0
      in if z = [] then None else Some (if negative then - n else n))"

text \<open>\<open>s.replace(/[$,\s]/g, '')\<close>, \<open>s.replace(/[^\d]/g, '')\<close> and \<open>s.match(/(\d+)/)\<close>.\<close>

definition stripCurrency :: "jsstring \<Rightarrow> jsstring" where
  "stripCurrency s = filter (\<lambda>c. c \<noteq> DOLLAR \<and> c \<noteq> COMMA \<and> \<not> isWhiteSpace c) s"

definition keepDigits :: "jsstring \<Rightarrow> jsstring" where
  "keepDigits s = filter isDigit s"

definition matchDigits :: "jsstring \<Rightarrow> jsstring option" where
  "matchDigits s =
     (let r = dropWhile (\<lambda>c. \<not> isDigit c) s
      in if r = [] then None else Some (takeWhile isDigit r))"

text \<open>The decimal text of a number in a template literal (\<open>${products.length}\<close>).\<close>

fun decimal :: "nat \<Rightarrow> jsstring" where
  "decimal n = (if n < 10 then [48 + int n] else decimal (n div 10) @ [48 + int (n mod 10)])"

declare decimal.simps [simp del]

section \<open>Dataset rows\<close>

text \<open>
  The row loop shared by \<open>csvToJsonl\<close> and the four search functions: a line is read
  character by character, a quote toggles \<open>inQuotes\<close>, a comma outside quotes closes
  the current field, and the last field is closed after the loop. (The source iterates
  by code point; quote and comma are single code units, so iterating by code unit
  builds the same fields.)
\<close>

fun parseLine_loop :: "jsstring \<Rightarrow> jsstring list \<Rightarrow> jsstring \<Rightarrow> bool \<Rightarrow> jsstring list" where
  "parseLine_loop [] vals current inQuotes = vals @ [trim current]"
| "parseLine_loop (c # cs) vals current inQuotes =
     (if c = QUOTE then parseLine_loop cs vals current (\<not> inQuotes)
      else if c = COMMA \<and> \<not> inQuotes then parseLine_loop cs (vals @ [trim current]) [] inQuotes
      else parseLine_loop cs vals (current @ [c]) inQuotes)"

definition parseLine :: "jsstring \<Rightarrow> jsstring list" where
  "parseLine line = parseLine_loop line [] [] False"

text \<open>
  \<open>headers.forEach((header, index) => { row[header] = values[index] || ''; })\<close>:
  the row object is a map from header names to strings; a later header of the same name
  overwrites an earlier one, and a missing or empty value is the empty string.
\<close>

type_synonym row = "jsstring \<rightharpoonup> jsstring"

definition fieldOrEmpty :: "jsstring list \<Rightarrow> nat \<Rightarrow> jsstring" where
  "fieldOrEmpty vals i = (if i < length vals then vals ! i else [])"

fun assignFields :: "jsstring list \<Rightarrow> nat \<Rightarrow> jsstring list \<Rightarrow> row \<Rightarrow> row" where
  "assignFields [] i vals r = r"
| "assignFields (h # hs) i vals r = assignFields hs (Suc i) vals (r(h \<mapsto> fieldOrEmpty vals i))"

definition mkRow :: "jsstring list \<Rightarrow> jsstring \<Rightarrow> row" where
  "mkRow headers line = assignFields headers 0 (parseLine line) Map.empty"

text \<open>\<open>lines[0].split(',').map(h => h.trim())\<close>; \<open>split\<close> always yields a first line.\<close>

definition headersOf :: "jsstring list \<Rightarrow> jsstring list" where
  "headersOf lines = (case lines of [] \<Rightarrow> [] | l # ls \<Rightarrow> map trim (js_split l COMMA))"

text \<open>
  \<open>for (let i = 1; i < Math.min(lines.length, bound); i++)\<close> visits the lines after the
  header up to index \<open>bound - 1\<close>; blank lines are skipped (\<open>continue\<close>).
\<close>

definition scannedLines :: "nat \<Rightarrow> jsstring list \<Rightarrow> jsstring list" where
  "scannedLines bound lines = take (bound - 1) (tl lines)"

definition dataRows :: "nat \<Rightarrow> jsstring \<Rightarrow> row list" where
  "dataRows bound csvData =
     (let lines = js_split csvData NEWLINE
      in map (mkRow (headersOf lines)) (filter (\<lambda>l. trim l \<noteq> []) (scannedLines bound lines)))"

section \<open>Precise matcher\<close>

text \<open>
  The two precise searches have the same loop body; they differ in the file, the scan
  bound (200 and 100), the third field searched (\<open>categorias\<close> and \<open>productos\<close>) and the
  object pushed. The body is written once, with the third field and the object
  builder as parameters.

  \<open>product.nombre?.toLowerCase().includes(keyword.toLowerCase())\<close> is \<open>undefined\<close>
  (falsy) when the row has no such field.
\<close>

definition fieldIncludes :: "row \<Rightarrow> jsstring \<Rightarrow> jsstring \<Rightarrow> bool" where
  "fieldIncludes r field keyword =
     (case r field of None \<Rightarrow> False
      | Some v \<Rightarrow> js_includes (toLowerCase v) (toLowerCase keyword))"

definition matchesKeyword :: "jsstring \<Rightarrow> jsstring \<Rightarrow> row \<Rightarrow> bool" where
  "matchesKeyword third keyword r \<longleftrightarrow>
     keyword = [] \<or> fieldIncludes r (str ''nombre'') keyword \<or>
     fieldIncludes r (str ''descripcion'') keyword \<or> fieldIncludes r third keyword"

definition rowPrice :: "row \<Rightarrow> jsnum" where
  "rowPrice r = parseFloat (stripCurrency (orEmpty (r (str ''precio''))))"

definition withinBudget :: "jsnum option \<Rightarrow> row \<Rightarrow> bool" where
  "withinBudget maxPrice r =
     (case maxPrice of
        None \<Rightarrow> True
      | Some m \<Rightarrow> \<not> num_truthy m \<or> (num_gt (rowPrice r) (Fin 0) \<and> num_le (rowPrice r) m))"

definition preciseMatch :: "jsstring \<Rightarrow> jsstring \<Rightarrow> jsnum option \<Rightarrow> row \<Rightarrow> bool" where
  "preciseMatch third keyword maxPrice r \<longleftrightarrow>
     matchesKeyword third keyword r \<and> withinBudget maxPrice r \<and> truthy (r (str ''nombre''))"

fun precise_loop ::
  "(row \<Rightarrow> 'r) \<Rightarrow> jsstring \<Rightarrow> jsstring list \<Rightarrow> jsstring \<Rightarrow> jsnum option \<Rightarrow> int \<Rightarrow>
   jsstring list \<Rightarrow> 'r list \<Rightarrow> 'r list" where
  "precise_loop build third headers keyword maxPrice limit [] found = found"
| "precise_loop build third headers keyword maxPrice limit (line # rest) found =
     (if trim line = [] then precise_loop build third headers keyword maxPrice limit rest found
      else
        let r = mkRow headers line;
            found' = (if preciseMatch third keyword maxPrice r then found @ [build r] else found)
        in if limit \<le> int (length found') then found'
           else precise_loop build third headers keyword maxPrice limit rest found')"

record product =
  sku :: "jsstring option"
  nombre :: "jsstring option"
  precio :: "jsstring option"
  descripcion :: "jsstring option"
  categorias :: "jsstring option"
  imagenes_url :: "jsstring option"

record kit =
  kit_nombre :: "jsstring option"
  kit_precio :: "jsstring option"
  kit_descripcion :: "jsstring option"
  productos :: "jsstring option"
  imagen :: "jsstring option"

definition mkProduct :: "row \<Rightarrow> product" where
  "mkProduct r =
     \<lparr>sku = r (str ''sku''), nombre = r (str ''nombre''), precio = r (str ''precio''),
      descripcion = r (str ''descripcion''), categorias = r (str ''categorias''),
      imagenes_url = r (str ''imagenes_url'')\<rparr>"

definition mkKit :: "row \<Rightarrow> kit" where
  "mkKit r =
     \<lparr>kit_nombre = r (str ''nombre''), kit_precio = r (str ''precio''),
      kit_descripcion = r (str ''descripcion''), productos = r (str ''productos''),
      imagen = r (str ''imagen'')\<rparr>"

text \<open>
  What a request finds outside the handler: the two dataset files (\<open>None\<close> when
  \<open>readFileSync\<close> throws), the outcome of the dialogue completion and of the ranking
  completion, and the identifiers \<open>generateId\<close> returns. A completion is rejected
  (network or API error) or resolves to its list of choices, each with its message
  content or \<open>null\<close>. The outcomes are not tied to the prompt sent: every property
  proved holds whatever the endpoint answers.
\<close>

datatype completion = Rejected jsstring | Resolved "jsstring option list"

record env =
  promo_csv :: "jsstring option"
  suitup_csv :: "jsstring option"
  chat_completion :: completion
  vector_completion :: completion
  new_conversation_id :: jsstring
  init_event_id :: jsstring
  handoff_event_id :: jsstring

text \<open>
  The whole body of each search is inside \<open>try\<close>; the \<open>catch\<close> returns \<open>[]\<close>. The only
  statement of the precise searches that can throw is the file read.
\<close>

definition searchPromoProductsPrecise :: "env \<Rightarrow> jsstring \<Rightarrow> jsnum option \<Rightarrow> int \<Rightarrow> product list" where
  "searchPromoProductsPrecise w keyword maxPrice limit =
     (case promo_csv w of
        None \<Rightarrow> []
      | Some csvData \<Rightarrow>
          let lines = js_split csvData NEWLINE
          in precise_loop mkProduct (str ''categorias'') (headersOf lines) keyword maxPrice limit
               (scannedLines 200 lines) [])"

definition searchSuitUpKitsPrecise :: "env \<Rightarrow> jsstring \<Rightarrow> jsnum option \<Rightarrow> int \<Rightarrow> kit list" where
  "searchSuitUpKitsPrecise w keyword maxPrice limit =
     (case suitup_csv w of
        None \<Rightarrow> []
      | Some csvData \<Rightarrow>
          let lines = js_split csvData NEWLINE
          in precise_loop mkKit (str ''productos'') (headersOf lines) keyword maxPrice limit
               (scannedLines 100 lines) [])"


text \<open>The rows each precise search scans, for stating what it returns.\<close>

definition promoRows :: "env \<Rightarrow> row list" where
  "promoRows w = (case promo_csv w of None \<Rightarrow> [] | Some csvData \<Rightarrow> dataRows 200 csvData)"

definition suitupRows :: "env \<Rightarrow> row list" where
  "suitupRows w = (case suitup_csv w of None \<Rightarrow> [] | Some csvData \<Rightarrow> dataRows 100 csvData)"

section \<open>Semantic matcher\<close>

text \<open>
  What the handler does is recorded beside its result: a call of a semantic search and
  a request to the completion endpoint each leave an entry, in order.
\<close>

datatype effect = CalledVectorProducts | CalledVectorKits | CompletionRequest

text \<open>
  The candidate list (\<open>productDescriptions\<close>, \<open>kitDescriptions\<close>): the rows with a name
  among the first lines (bound 50 for products, 30 for kits). The source pairs each row
  with the text shown to the model; the text only enters the prompt.
\<close>

definition candidateRows :: "nat \<Rightarrow> jsstring \<Rightarrow> row list" where
  "candidateRows bound csvData = filter (\<lambda>r. truthy (r (str ''nombre''))) (dataRows bound csvData)"

text \<open>
  \<open>content?.split(',').map(n => parseInt(n.trim())).filter(n => !isNaN(n)) || []\<close>
\<close>

definition parseMatches :: "jsstring option \<Rightarrow> int list" where
  "parseMatches content =
     (case content of
        None \<Rightarrow> []
      | Some s \<Rightarrow>
          concat (map (\<lambda>n. case parseInt (trim n) of None \<Rightarrow> [] | Some i \<Rightarrow> [i])
                    (js_split s COMMA)))"

text \<open>
  The local price filter: \<open>if (maxPrice) { ... if (price > 0 && price > maxPrice) return null; }\<close>
\<close>

definition semanticDrop :: "jsnum option \<Rightarrow> row \<Rightarrow> bool" where
  "semanticDrop maxPrice r =
     (case maxPrice of
        None \<Rightarrow> False
      | Some m \<Rightarrow> num_truthy m \<and> num_gt (rowPrice r) (Fin 0) \<and> num_gt (rowPrice r) m)"

text \<open>
  \<open>productDescriptions[index]\<close> is \<open>undefined\<close> unless the index is an integer within
  the list; the callback then returns \<open>null\<close>, which \<open>filter(Boolean)\<close> removes.
\<close>

definition pickCandidate :: "(row \<Rightarrow> 'r) \<Rightarrow> row list \<Rightarrow> jsnum option \<Rightarrow> int \<Rightarrow> 'r option" where
  "pickCandidate build candidates maxPrice index =
     (if 0 \<le> index \<and> nat index < length candidates then
        (if semanticDrop maxPrice (candidates ! nat index) then None
         else Some (build (candidates ! nat index)))
      else None)"

definition semanticResults :: "(row \<Rightarrow> 'r) \<Rightarrow> row list \<Rightarrow> jsnum option \<Rightarrow> int list \<Rightarrow> 'r list" where
  "semanticResults build candidates maxPrice matches =
     concat (map (\<lambda>index. case pickCandidate build candidates maxPrice index of
                             None \<Rightarrow> [] | Some x \<Rightarrow> [x]) matches)"

text \<open>
  The semantic searches. The file read comes first and can throw; then the prompt
  (built from \<open>limit\<close>, \<open>keyword\<close>, the candidates and \<open>maxPrice\<close>) is sent, which can
  reject; \<open>response.choices[0].message.content\<close> throws when there is no choice. Every
  throw is caught and gives \<open>[]\<close>. \<open>keyword\<close> and \<open>limit\<close> are used in the prompt only.
\<close>

definition searchPromoProductsVector ::
  "env \<Rightarrow> jsstring \<Rightarrow> jsnum option \<Rightarrow> int \<Rightarrow> product list \<times> effect list" where
  "searchPromoProductsVector w keyword maxPrice limit =
     (case promo_csv w of
        None \<Rightarrow> ([], [])
      | Some csvData \<Rightarrow>
          (case vector_completion w of
             Rejected e \<Rightarrow> ([], [CompletionRequest])
           | Resolved [] \<Rightarrow> ([], [CompletionRequest])
           | Resolved (content # others) \<Rightarrow>
               (semanticResults mkProduct (candidateRows 50 csvData) maxPrice
                  (parseMatches content), [CompletionRequest])))"

definition searchSuitUpKitsVector ::
  "env \<Rightarrow> jsstring \<Rightarrow> jsnum option \<Rightarrow> int \<Rightarrow> kit list \<times> effect list" where
  "searchSuitUpKitsVector w keyword maxPrice limit =
     (case suitup_csv w of
        None \<Rightarrow> ([], [])
      | Some csvData \<Rightarrow>
          (case vector_completion w of
             Rejected e \<Rightarrow> ([], [CompletionRequest])
           | Resolved [] \<Rightarrow> ([], [CompletionRequest])
           | Resolved (content # others) \<Rightarrow>
               (semanticResults mkKit (candidateRows 30 csvData) maxPrice
                  (parseMatches content), [CompletionRequest])))"

section \<open>Formatting and hybrid retrieval\<close>

text \<open>A template literal prints \<open>undefined\<close> for a missing field.\<close>

definition tpl :: "jsstring option \<Rightarrow> jsstring" where
  "tpl v = (case v of None \<Rightarrow> str ''undefined'' | Some s \<Rightarrow> s)"

definition BULLET :: jsstring where
  "BULLET = str ''   '' @ [8226] @ str '' ''"

definition formatProductEntry :: "product \<Rightarrow> nat \<Rightarrow> jsstring" where
  "formatProductEntry p index =
     decimal (index + 1) @ str ''. **'' @ tpl (nombre p) @ str ''**'' @ [NEWLINE] @
     BULLET @ str ''Precio: '' @ tpl (precio p) @ [NEWLINE] @
     BULLET @ str ''Descripci'' @ [243] @ str ''n: '' @ tpl (descripcion p) @ [NEWLINE] @
     (if truthy (categorias p)
      then BULLET @ str ''Categor'' @ [237] @ str ''a: '' @ tpl (categorias p) @ [NEWLINE]
      else []) @
     [NEWLINE]"

fun formatProductEntries :: "product list \<Rightarrow> nat \<Rightarrow> jsstring" where
  "formatProductEntries [] index = []"
| "formatProductEntries (p # ps) index =
     formatProductEntry p index @ formatProductEntries ps (Suc index)"

definition formatProductResults :: "product list \<Rightarrow> jsstring" where
  "formatProductResults products =
     (if length products = 0 then
        str ''No encontr'' @ [233] @ str '' productos que coincidan con tu b'' @ [250] @
        str ''squeda. '' @ [191] @ str ''Podr'' @ [237] @
        str ''as describir lo que necesitas de manera diferente?''
      else
        str ''Encontr'' @ [233] @ str '' '' @ decimal (length products) @
        str '' productos que podr'' @ [237] @ str ''an interesarte:'' @ [NEWLINE, NEWLINE] @
        formatProductEntries products 0 @
        [191] @ str ''Te interesa alguno de estos productos? '' @ [191] @
        str ''O prefieres que busque algo m'' @ [225] @ str ''s espec'' @ [237] @ str ''fico?'')"

definition formatKitEntry :: "kit \<Rightarrow> nat \<Rightarrow> jsstring" where
  "formatKitEntry k index =
     decimal (index + 1) @ str ''. **'' @ tpl (kit_nombre k) @ str ''**'' @ [NEWLINE] @
     BULLET @ str ''Precio: '' @ tpl (kit_precio k) @ [NEWLINE] @
     BULLET @ str ''Descripci'' @ [243] @ str ''n: '' @ tpl (kit_descripcion k) @ [NEWLINE] @
     (if truthy (productos k)
      then BULLET @ str ''Incluye: '' @ tpl (productos k) @ [NEWLINE]
      else []) @
     [NEWLINE]"

fun formatKitEntries :: "kit list \<Rightarrow> nat \<Rightarrow> jsstring" where
  "formatKitEntries [] index = []"
| "formatKitEntries (k # ks) index = formatKitEntry k index @ formatKitEntries ks (Suc index)"

definition formatKitResults :: "kit list \<Rightarrow> jsstring" where
  "formatKitResults kits =
     (if length kits = 0 then
        str ''No encontr'' @ [233] @ str '' kits que coincidan con tu b'' @ [250] @
        str ''squeda. '' @ [191] @ str ''Podr'' @ [237] @
        str ''as describir lo que necesitas de manera diferente?''
      else
        str ''Encontr'' @ [233] @ str '' '' @ decimal (length kits) @
        str '' kits que podr'' @ [237] @ str ''an interesarte:'' @ [NEWLINE, NEWLINE] @
        formatKitEntries kits 0 @
        [191] @ str ''Te interesa alguno de estos kits? '' @ [191] @
        str ''O prefieres que busque algo m'' @ [225] @ str ''s espec'' @ [237] @ str ''fico?'')"

definition noProductsMessage :: jsstring where
  "noProductsMessage =
     str ''No se encontraron productos que coincidan con los criterios de b'' @ [250] @
     str ''squeda.''"

definition noKitsMessage :: jsstring where
  "noKitsMessage =
     str ''No se encontraron kits que coincidan con los criterios de b'' @ [250] @
     str ''squeda.''"

definition searchAndFormatProducts ::
  "env \<Rightarrow> jsstring \<Rightarrow> jsnum option \<Rightarrow> int \<Rightarrow> jsstring \<times> effect list" where
  "searchAndFormatProducts w keyword maxPrice limit =
     (let preciseResults = searchPromoProductsPrecise w keyword maxPrice limit
      in if length preciseResults > 0 then (formatProductResults preciseResults, [])
         else
           let (vectorResults, requests) = searchPromoProductsVector w keyword maxPrice limit
           in (if length vectorResults > 0 then formatProductResults vectorResults
               else noProductsMessage,
               CalledVectorProducts # requests))"

definition searchAndFormatKits ::
  "env \<Rightarrow> jsstring \<Rightarrow> jsnum option \<Rightarrow> int \<Rightarrow> jsstring \<times> effect list" where
  "searchAndFormatKits w keyword maxPrice limit =
     (let preciseResults = searchSuitUpKitsPrecise w keyword maxPrice limit
      in if length preciseResults > 0 then (formatKitResults preciseResults, [])
         else
           let (vectorResults, requests) = searchSuitUpKitsVector w keyword maxPrice limit
           in (if length vectorResults > 0 then formatKitResults vectorResults
               else noKitsMessage,
               CalledVectorKits # requests))"


section \<open>Building the documents of the vector stores\<close>

datatype js_error = FileNotFound | TypeError | ApiError jsstring

datatype productType = Promo | Suitup

text \<open>
  \<open>fs.readFileSync\<close> on the two dataset paths; any other path is absent. \<open>csvToJsonl\<close>
  has no \<open>try\<close> of its own: a failed read is thrown to its caller. It reads every line
  after the header. A document is its text (\<open>doc_text\<close>) and its metadata object, the keys in the
  order the source writes them.
\<close>

definition readFileSync :: "env \<Rightarrow> jsstring \<Rightarrow> js_error + jsstring" where
  "readFileSync w csvPath =
     (if csvPath = str ''airtable/promo.csv'' then
        (case promo_csv w of None \<Rightarrow> Inl FileNotFound | Some d \<Rightarrow> Inr d)
      else if csvPath = str ''airtable/suitup.csv'' then
        (case suitup_csv w of None \<Rightarrow> Inl FileNotFound | Some d \<Rightarrow> Inr d)
      else Inl FileNotFound)"

record doc =
  doc_text :: jsstring
  metadata :: "(jsstring \<times> jsstring) list"

definition mkDoc :: "productType \<Rightarrow> row \<Rightarrow> doc" where
  "mkDoc productType r =
     (case productType of
        Promo \<Rightarrow>
          \<lparr>doc_text = str ''Producto: '' @ tpl (r (str ''nombre'')) @ str '' - '' @
                  tpl (r (str ''descripcion'')) @ str '' - Categor'' @ [237] @ str ''a: '' @
                  tpl (r (str ''categorias'')) @ str '' - Precio: '' @ tpl (r (str ''precio'')) @
                  str '' - SKU: '' @ tpl (r (str ''sku'')),
           metadata =
             [(str ''sku'', orEmpty (r (str ''sku''))),
              (str ''nombre'', orEmpty (r (str ''nombre''))),
              (str ''descripcion'', orEmpty (r (str ''descripcion''))),
              (str ''categorias'', orEmpty (r (str ''categorias''))),
              (str ''precio'', orEmpty (r (str ''precio''))),
              (str ''imagenes_url'', orEmpty (r (str ''imagenes_url''))),
              (str ''type'', str ''promotional_product'')]\<rparr>
      | Suitup \<Rightarrow>
          \<lparr>doc_text = str ''Kit: '' @ tpl (r (str ''nombre'')) @ str '' - '' @
                  tpl (r (str ''descripcion'')) @ str '' - Productos incluidos: '' @
                  tpl (r (str ''productos'')) @ str '' - Precio: '' @ tpl (r (str ''precio'')),
           metadata =
             [(str ''nombre'', orEmpty (r (str ''nombre''))),
              (str ''descripcion'', orEmpty (r (str ''descripcion''))),
              (str ''productos'', orEmpty (r (str ''productos''))),
              (str ''precio'', orEmpty (r (str ''precio''))),
              (str ''imagen'', orEmpty (r (str ''imagen''))),
              (str ''type'', str ''promotional_kit'')]\<rparr>)"

fun csvToJsonl_loop :: "productType \<Rightarrow> jsstring list \<Rightarrow> jsstring list \<Rightarrow> doc list \<Rightarrow> doc list" where
  "csvToJsonl_loop productType headers [] jsonlData = jsonlData"
| "csvToJsonl_loop productType headers (line # rest) jsonlData =
     (if trim line = [] then csvToJsonl_loop productType headers rest jsonlData
      else if \<not> truthy (mkRow headers line (str ''nombre'')) then
        csvToJsonl_loop productType headers rest jsonlData
      else csvToJsonl_loop productType headers rest
             (jsonlData @ [mkDoc productType (mkRow headers line)]))"

definition csvToJsonl :: "env \<Rightarrow> jsstring \<Rightarrow> productType \<Rightarrow> js_error + doc list" where
  "csvToJsonl w csvPath productType =
     (case readFileSync w csvPath of
        Inl e \<Rightarrow> Inl e
      | Inr csvData \<Rightarrow>
          let lines = js_split csvData NEWLINE
          in Inr (csvToJsonl_loop productType (headersOf lines) (tl lines) []))"

section \<open>Conversation state and the chat endpoint\<close>

record chatMessage =
  content :: jsstring
  agent :: jsstring

record chatEvent =
  event_id :: jsstring
  event_type :: jsstring
  event_agent :: jsstring
  event_content :: jsstring

text \<open>
  \<open>ConversationContext\<close> and \<open>ConversationState\<close>. The slots of the context are
  \<open>ctx_descripcion\<close> and \<open>ctx_precio\<close> (the source's \<open>descripcion\<close> and \<open>precio\<close>, which
  are also fields of a product here); \<open>conv_context\<close> is the source's \<open>context\<close>.
\<close>

record ConversationContext =
  business_unit :: "jsstring option"
  customer_name :: "jsstring option"
  selected_products :: "product list"
  ctx_descripcion :: "jsstring option"
  ctx_precio :: "jsstring option"

record ConversationState =
  conversation_id :: jsstring
  current_agent :: jsstring
  conv_context :: ConversationContext
  messages :: "chatMessage list"
  events :: "chatEvent list"

text \<open>
  The request body: \<open>message\<close> and \<open>conversation_id\<close>, each possibly missing. The
  response is the JSON payload (the conversation's fields; the static \<open>agents\<close> list
  and the empty \<open>guardrails\<close> list are the same in every payload) or the status-500
  answer of the outer \<open>catch\<close>. \<open>conversations\<close> is the in-memory \<open>Map\<close>.
\<close>

record request =
  message :: "jsstring option"
  req_conversation_id :: "jsstring option"

datatype response = Json ConversationState | InternalServerError js_error

type_synonym conversations = "jsstring \<rightharpoonup> ConversationState"

definition TRIAGE :: jsstring where "TRIAGE = str ''Triage Agent''"
definition PROMOSELECT_AGENT :: jsstring where "PROMOSELECT_AGENT = str ''Promoselect Agent''"
definition SUITUP_AGENT :: jsstring where "SUITUP_AGENT = str ''SuitUp Agent''"
definition DISPLAY_BUSINESS_SELECTOR :: jsstring where
  "DISPLAY_BUSINESS_SELECTOR = str ''DISPLAY_BUSINESS_SELECTOR''"

definition promoselectWelcome :: jsstring where
  "promoselectWelcome =
     [161] @ str ''Perfecto! Ahora te ayudo a encontrar productos promocionales individuales. '' @
     [191] @ str ''Qu'' @ [233] @ str '' tipo de producto est'' @ [225] @
     str ''s buscando? Por ejemplo: camisetas, bol'' @ [237] @ str ''grafos, tazas, etc.''"

definition suitupWelcome :: jsstring where
  "suitupWelcome =
     [161] @ str ''Excelente! Te ayudo a encontrar kits de productos promocionales. '' @
     [191] @ str ''Qu'' @ [233] @
     str '' tipo de kit necesitas? Por ejemplo: kit ejecutivo, kit de bienvenida, kit de eventos, etc.''"

definition fallbackReply :: jsstring where
  "fallbackReply = str ''Lo siento, no pude procesar tu mensaje.''"

definition newConversation :: "jsstring \<Rightarrow> env \<Rightarrow> ConversationState" where
  "newConversation convId w =
     \<lparr>conversation_id = convId,
      current_agent = TRIAGE,
      conv_context =
        \<lparr>business_unit = None, customer_name = None, selected_products = [],
         ctx_descripcion = None, ctx_precio = None\<rparr>,
      messages = [],
      events =
        [\<lparr>event_id = init_event_id w, event_type = str ''message'', event_agent = TRIAGE,
          event_content = str ''Agent initialized''\<rparr>]\<rparr>"

text \<open>
  \<open>!message || message.toLowerCase().includes('hola') || message.toLowerCase().includes('hello')\<close>
\<close>

definition isGreeting :: "jsstring option \<Rightarrow> bool" where
  "isGreeting msg =
     (case msg of
        None \<Rightarrow> True
      | Some m \<Rightarrow>
          m = [] \<or> js_includes (toLowerCase m) (str ''hola'') \<or>
          js_includes (toLowerCase m) (str ''hello''))"

text \<open>
  Slot extraction from the raw message: the description when none is stored and the
  message is longer than three code units, the first run of digits as the budget when
  none is stored.
\<close>

definition extractSlots :: "ConversationContext \<Rightarrow> jsstring \<Rightarrow> ConversationContext" where
  "extractSlots ctx m =
     (let ctx1 = (if \<not> truthy (ctx_descripcion ctx) \<and> length m > 3
                  then ctx\<lparr>ctx_descripcion := Some m\<rparr> else ctx)
      in case matchDigits m of
           None \<Rightarrow> ctx1
         | Some priceMatch \<Rightarrow>
             if \<not> truthy (ctx_precio ctx1) then ctx1\<lparr>ctx_precio := Some priceMatch\<rparr> else ctx1)"

text \<open>
  \<open>completion.choices[0]?.message?.content || "Lo siento, no pude procesar tu mensaje."\<close>
\<close>

definition completionText :: "jsstring option list \<Rightarrow> jsstring" where
  "completionText choices =
     (case choices of
        [] \<Rightarrow> fallbackReply
      | c # cs \<Rightarrow> (case c of None \<Rightarrow> fallbackReply | Some t \<Rightarrow> if t = [] then fallbackReply else t))"

text \<open>
  The free-form branch after the completion returned \<open>reply\<close>: the search when business
  unit, description and budget are all stored, slot extraction otherwise. It yields the
  reply to record, the context and the calls made.
\<close>

definition searchOrExtract ::
  "env \<Rightarrow> ConversationContext \<Rightarrow> jsstring \<Rightarrow> jsstring \<Rightarrow>
   jsstring \<times> ConversationContext \<times> effect list" where
  "searchOrExtract w ctx m reply =
     (case (business_unit ctx, ctx_descripcion ctx, ctx_precio ctx) of
        (Some bu, Some d, Some p) \<Rightarrow>
          if bu \<noteq> [] \<and> d \<noteq> [] \<and> p \<noteq> [] then
            (let maxPrice = parseFloat (keepDigits p)
             in if bu = str ''promoselect'' then
                  (fst (searchAndFormatProducts w d (Some maxPrice) 3), ctx,
                   snd (searchAndFormatProducts w d (Some maxPrice) 3))
                else if bu = str ''suitup'' then
                  (fst (searchAndFormatKits w d (Some maxPrice) 3), ctx,
                   snd (searchAndFormatKits w d (Some maxPrice) 3))
                else (reply, ctx, []))
          else (reply, extractSlots ctx m, [])
      | _ \<Rightarrow> (reply, extractSlots ctx m, []))"

text \<open>
  The handler after the conversation is found or created and the initial greeting did
  not apply. \<open>message.toLowerCase()\<close> throws a TypeError on a missing message. A throw
  reaches the outer \<open>catch\<close> before anything is written, so the map is unchanged.
\<close>

definition handleMessage ::
  "conversations \<Rightarrow> jsstring \<Rightarrow> ConversationState \<Rightarrow> jsstring option \<Rightarrow> env \<Rightarrow>
   response \<times> conversations \<times> effect list" where
  "handleMessage store convId conversation msg w =
     (case msg of
        None \<Rightarrow> (InternalServerError TypeError, store, [])
      | Some m \<Rightarrow>
          if js_includes (toLowerCase m) (str ''promoselect'') then
            (let c = conversation
                   \<lparr>current_agent := PROMOSELECT_AGENT,
                    conv_context := (conv_context conversation)\<lparr>business_unit := Some (str ''promoselect'')\<rparr>,
                    messages := messages conversation @
                      [\<lparr>content = promoselectWelcome, agent = PROMOSELECT_AGENT\<rparr>],
                    events := events conversation @
                      [\<lparr>event_id = handoff_event_id w, event_type = str ''handoff'',
                        event_agent = PROMOSELECT_AGENT,
                        event_content = str ''Switched to Promoselect Agent''\<rparr>]\<rparr>
             in (Json c, store(convId \<mapsto> c), []))
          else if js_includes (toLowerCase m) (str ''suitup'') then
            (let c = conversation
                   \<lparr>current_agent := SUITUP_AGENT,
                    conv_context := (conv_context conversation)\<lparr>business_unit := Some (str ''suitup'')\<rparr>,
                    messages := messages conversation @
                      [\<lparr>content = suitupWelcome, agent = SUITUP_AGENT\<rparr>],
                    events := events conversation @
                      [\<lparr>event_id = handoff_event_id w, event_type = str ''handoff'',
                        event_agent = SUITUP_AGENT,
                        event_content = str ''Switched to SuitUp Agent''\<rparr>]\<rparr>
             in (Json c, store(convId \<mapsto> c), []))
          else
            (case chat_completion w of
               Rejected e \<Rightarrow> (InternalServerError (ApiError e), store, [CompletionRequest])
             | Resolved choices \<Rightarrow>
                 (case searchOrExtract w (conv_context conversation) m (completionText choices) of
                    (responseMessage, ctx, calls) \<Rightarrow>
                      let c = conversation
                            \<lparr>conv_context := ctx,
                             messages := messages conversation @
                               [\<lparr>content = responseMessage, agent = current_agent conversation\<rparr>]\<rparr>
                      in (Json c, store(convId \<mapsto> c), CompletionRequest # calls))))"

text \<open>\<open>conversation_id || generateId()\<close>\<close>

definition convIdOf :: "request \<Rightarrow> env \<Rightarrow> jsstring" where
  "convIdOf req w =
     (case req_conversation_id req of
        None \<Rightarrow> new_conversation_id w
      | Some c \<Rightarrow> if c = [] then new_conversation_id w else c)"

definition POST :: "conversations \<Rightarrow> request \<Rightarrow> env \<Rightarrow> response \<times> conversations \<times> effect list" where
  "POST store req w =
     (let convId = convIdOf req w
      in case store convId of
           None \<Rightarrow>
             if isGreeting (message req) then
               (let c = (newConversation convId w)
                      \<lparr>messages := [\<lparr>content = DISPLAY_BUSINESS_SELECTOR, agent = TRIAGE\<rparr>]\<rparr>
                in (Json c, store(convId \<mapsto> c), []))
             else handleMessage store convId (newConversation convId w) (message req) w
         | Some conversation \<Rightarrow> handleMessage store convId conversation (message req) w)"

text \<open>A conversation's life: the requests served one after the other, from the empty map.\<close>

fun serve :: "conversations \<Rightarrow> (request \<times> env) list \<Rightarrow> conversations" where
  "serve store [] = store"
| "serve store ((req, w) # rest) = serve (fst (snd (POST store req w))) rest"

text \<open>
  The placeholder endpoint kept beside the full one (the serverless function has the
  same body, with its welcome text in another encoding): it stores nothing and calls
  nothing, and answers with the selector when no conversation id is sent or the
  message holds a greeting.
\<close>

definition placeholderWelcome :: jsstring where
  "placeholderWelcome =
     [161] @ str ''Hola! Bienvenido a nuestro asistente de productos promocionales. Para comenzar, por favor selecciona tu unidad de negocio:''"

definition POST_placeholder :: "request \<Rightarrow> env \<Rightarrow> response \<times> effect list" where
  "POST_placeholder req w =
     (let r = (newConversation (convIdOf req w) w)
                \<lparr>messages := [\<lparr>content = placeholderWelcome, agent = TRIAGE\<rparr>]\<rparr>;
          selector = r\<lparr>messages := [\<lparr>content = DISPLAY_BUSINESS_SELECTOR, agent = TRIAGE\<rparr>]\<rparr>
      in if \<not> truthy (req_conversation_id req) then (Json selector, [])
         else (case message req of
                 None \<Rightarrow> (InternalServerError TypeError, [])
               | Some m \<Rightarrow>
                   if js_includes (toLowerCase m) (str ''hola'') \<or>
                      js_includes (toLowerCase m) (str ''hello'')
                   then (Json selector, []) else (Json r, [])))"


section \<open>Reading a response\<close>

text \<open>
  The reply a response records (the last message of the payload), the current agent it
  names, and the conversation a request addresses: the stored one, or a new one when
  the map has none under the request's id.
\<close>

definition recordedReply :: "response \<Rightarrow> chatMessage option" where
  "recordedReply r =
     (case r of
        Json c \<Rightarrow> (case rev (messages c) of [] \<Rightarrow> None | m # ms \<Rightarrow> Some m)
      | InternalServerError e \<Rightarrow> None)"

definition respondingAgent :: "response \<Rightarrow> jsstring option" where
  "respondingAgent r = (case r of Json c \<Rightarrow> Some (current_agent c) | InternalServerError e \<Rightarrow> None)"

definition addressedConversation :: "conversations \<Rightarrow> request \<Rightarrow> env \<Rightarrow> ConversationState" where
  "addressedConversation store req w =
     (case store (convIdOf req w) of
        None \<Rightarrow> newConversation (convIdOf req w) w
      | Some conversation \<Rightarrow> conversation)"

text \<open>
  What every stored context satisfies: a stored slot is never the empty string, a
  stored budget is a run of digits, and the business unit is \<open>null\<close> or one of the two
  unit names.
\<close>

definition slotsWellFormed :: "ConversationContext \<Rightarrow> bool" where
  "slotsWellFormed ctx \<longleftrightarrow>
     ctx_descripcion ctx \<noteq> Some [] \<and> ctx_precio ctx \<noteq> Some [] \<and>
     (\<forall>p. ctx_precio ctx = Some p \<longrightarrow> list_all isDigit p) \<and>
     (business_unit ctx = None \<or> business_unit ctx = Some (str ''promoselect'') \<or>
      business_unit ctx = Some (str ''suitup''))"

definition storeWellFormed :: "conversations \<Rightarrow> bool" where
  "storeWellFormed store \<longleftrightarrow> (\<forall>cid c. store cid = Some c \<longrightarrow> slotsWellFormed (conv_context c))"

text \<open>One context follows another when the stored slots and a set business unit are kept.\<close>

definition slotsKept :: "ConversationContext \<Rightarrow> ConversationContext \<Rightarrow> bool" where
  "slotsKept ctx ctx' \<longleftrightarrow>
     (\<forall>d. ctx_descripcion ctx = Some d \<longrightarrow> ctx_descripcion ctx' = Some d) \<and>
     (\<forall>p. ctx_precio ctx = Some p \<longrightarrow> ctx_precio ctx' = Some p) \<and>
     (business_unit ctx \<noteq> None \<longrightarrow> business_unit ctx' \<noteq> None)"

section \<open>What the row parser is to do, in the words of the specification\<close>

text \<open>
  A position of a line is inside a quoted field when an odd number of quote characters
  stands before it; the line is to be split at the commas that are not inside a quoted
  field. These two definitions follow the specification, not the loop; the loop is
  compared with them.
\<close>

definition insideQuotedField :: "jsstring \<Rightarrow> nat \<Rightarrow> bool" where
  "insideQuotedField line i = odd (count_list (take i line) QUOTE)"

definition unquotedCommas :: "jsstring \<Rightarrow> nat list" where
  "unquotedCommas line =
     filter (\<lambda>i. line ! i = COMMA \<and> \<not> insideQuotedField line i) [0..<length line]"

section \<open>Sample inputs\<close>

text \<open>
  A small product table (a mug with no price, a pen at 5 pesos, a cap at 120 and a
  flask at 250), a one-kit table, and an environment whose ranking completion answers
  \<open>0,1,2,3\<close>; \<open>demo_env_offline\<close> is the same with the ranking completion rejected.
\<close>

definition demo_promo_csv :: jsstring where
  "demo_promo_csv =
     str ''nombre,precio,categorias\<newline>Taza,,hogar\<newline>Pluma,$5,oficina\<newline>Gorra,$120,ropa\<newline>Termo,$250,hogar''"

definition demo_suitup_csv :: jsstring where
  "demo_suitup_csv = str ''nombre,precio,productos\<newline>Kit Cafe,$300,taza y cafe''"

definition demo_env :: env where
  "demo_env =
     \<lparr>promo_csv = Some demo_promo_csv, suitup_csv = Some demo_suitup_csv,
      chat_completion = Resolved [Some (str ''Dime mas'')],
      vector_completion = Resolved [Some (str ''0,1,2,3'')],
      new_conversation_id = str ''c1'', init_event_id = str ''e1'',
      handoff_event_id = str ''e2''\<rparr>"

definition demo_env_offline :: env where
  "demo_env_offline = demo_env\<lparr>vector_completion := Rejected (str ''timeout'')\<rparr>"

text \<open>The same environment with the dialogue completion rejected.\<close>

definition demo_env_down :: env where
  "demo_env_down = demo_env\<lparr>chat_completion := Rejected (str ''timeout'')\<rparr>"

text \<open>
  A data line whose second field is quoted and holds a comma, and a product table whose
  first data row has no name.
\<close>

definition demo_quoted_line :: jsstring where
  "demo_quoted_line = str ''Taza,'' @ [QUOTE] @ str ''blanca, grande'' @ [QUOTE] @ str '',$50''"

definition demo_env_nameless :: env where
  "demo_env_nameless = demo_env\<lparr>promo_csv := Some (str ''nombre,precio\<newline>,$9\<newline>Taza,$50'')\<rparr>"

text \<open>
  A table whose second data field is quoted and runs over a line break, with a comma
  after the break; and a table whose first header is quoted and holds a comma.
\<close>

definition demo_multiline_csv :: jsstring where
  "demo_multiline_csv =
     str ''nombre,descripcion\<newline>Taza,'' @ [QUOTE] @ str ''blanca\<newline>grande, bonita'' @ [QUOTE]"

definition demo_quoted_header_csv :: jsstring where
  "demo_quoted_header_csv =
     [QUOTE] @ str ''precio, MXN'' @ [QUOTE] @ str '',nombre\<newline>$50,Taza''"

definition demo_request :: "string \<Rightarrow> string \<Rightarrow> request" where
  "demo_request m c =
     \<lparr>message = Some (str m), req_conversation_id = (if c = [] then None else Some (str c))\<rparr>"

text \<open>
  A conversation \<open>c1\<close>: the unit is chosen, then a description and a budget are sent.
\<close>

definition demo_history :: "(request \<times> env) list" where
  "demo_history =
     [(demo_request ''promoselect'' [], demo_env), (demo_request ''pluma'' ''c1'', demo_env),
      (demo_request ''100'' ''c1'', demo_env)]"

section \<open>Precise matcher: the first matches in scan order\<close>

lemma precise_loop_first_matches:
  "int (length found) < limit \<Longrightarrow>
   precise_loop build third headers keyword maxPrice limit lines found =
   found @ map build (take (nat limit - length found)
     (filter (preciseMatch third keyword maxPrice)
        (map (mkRow headers) (filter (\<lambda>l. trim l \<noteq> []) lines))))"
proof (induction lines arbitrary: found)
  case Nil
  then show ?case by simp
next
  case (Cons line rest)
  show ?case
  proof (cases "trim line = []")
    case True
    with Cons show ?thesis by simp
  next
    case nonblank: False
    show ?thesis
    proof (cases "preciseMatch third keyword maxPrice (mkRow headers line)")
      case False
      with nonblank Cons show ?thesis by (simp add: Let_def)
    next
      case matched: True
      show ?thesis
      proof (cases "limit \<le> int (length found) + 1")
        case True
        with Cons.prems have "nat limit - length found = Suc 0" by linarith
        with True matched nonblank show ?thesis by (simp add: Let_def)
      next
        case False
        then have lt: "int (length (found @ [build (mkRow headers line)])) < limit" by simp
        define k where "k = nat limit - length found - 1"
        from False have k: "nat limit - length found = Suc k" unfolding k_def by linarith
        then have k': "nat limit - length (found @ [build (mkRow headers line)]) = k" by simp
        from Cons.IH[OF lt] False matched nonblank k k'
        show ?thesis by (simp add: Let_def)
      qed
    qed
  qed
qed

lemma searchPromoProductsPrecise_eq:
  "1 \<le> limit \<Longrightarrow>
   searchPromoProductsPrecise w keyword maxPrice limit =
   map mkProduct (take (nat limit)
     (filter (preciseMatch (str ''categorias'') keyword maxPrice) (promoRows w)))"
  by (cases "promo_csv w")
     (simp_all add: searchPromoProductsPrecise_def promoRows_def dataRows_def Let_def
        precise_loop_first_matches)

lemma searchSuitUpKitsPrecise_eq:
  "1 \<le> limit \<Longrightarrow>
   searchSuitUpKitsPrecise w keyword maxPrice limit =
   map mkKit (take (nat limit)
     (filter (preciseMatch (str ''productos'') keyword maxPrice) (suitupRows w)))"
  by (cases "suitup_csv w")
     (simp_all add: searchSuitUpKitsPrecise_def suitupRows_def dataRows_def Let_def
        precise_loop_first_matches)

lemma num_gt_zero_known: "num_gt p (Fin 0) \<Longrightarrow> p \<noteq> NaN \<and> p \<noteq> Fin 0"
  by (cases p) (simp_all add: num_gt_def)

lemma preciseMatch_predicates:
  assumes "preciseMatch third keyword maxPrice r"
  shows "keyword = [] \<or> fieldIncludes r (str ''nombre'') keyword \<or>
         fieldIncludes r (str ''descripcion'') keyword \<or> fieldIncludes r third keyword"
    and "truthy (r (str ''nombre''))"
    and "maxPrice = Some m \<Longrightarrow> num_truthy m \<Longrightarrow>
         num_gt (rowPrice r) (Fin 0) \<and> num_le (rowPrice r) m \<and>
         rowPrice r \<noteq> NaN \<and> rowPrice r \<noteq> Fin 0"
  using assms num_gt_zero_known[of "rowPrice r"]
  by (auto simp: preciseMatch_def matchesKeyword_def withinBudget_def)

lemma preciseMatch_spelled:
  "preciseMatch third keyword maxPrice r \<longleftrightarrow>
   truthy (r (str ''nombre'')) \<and>
   (keyword = [] \<or>
    (\<exists>field \<in> {str ''nombre'', str ''descripcion'', third}.
       \<exists>v. r field = Some v \<and> js_includes (toLowerCase v) (toLowerCase keyword))) \<and>
   (\<forall>m. maxPrice = Some m \<and> num_truthy m \<longrightarrow>
      num_gt (parseFloat (stripCurrency (orEmpty (r (str ''precio''))))) (Fin 0) \<and>
      num_le (parseFloat (stripCurrency (orEmpty (r (str ''precio''))))) m)"
  by (cases maxPrice)
     (auto simp: preciseMatch_def matchesKeyword_def fieldIncludes_def withinBudget_def rowPrice_def
        split: option.splits)

text \<open>
  C2 (amended). For every keyword, every ceiling and every whole-number limit of at
  least 1, each precise search returns the first \<open>limit\<close> rows, in scan order, among the
  scanned rows that match: so at most \<open>limit\<close> records. A row matches exactly when it
  has a name, satisfies the keyword predicate (keyword empty, or contained
  case-insensitively in the name, the description or the category/contents field) and
  satisfies the price predicate, where a ceiling that is absent, zero or NaN counts as
  no ceiling and any other ceiling admits only a parsed price above zero and at most
  the ceiling (never an unparseable or zero price).
\<close>

theorem precise_matcher_first_matches:
  assumes "1 \<le> limit"
  shows
    "searchPromoProductsPrecise w keyword maxPrice limit =
       map mkProduct (take (nat limit)
         (filter (preciseMatch (str ''categorias'') keyword maxPrice) (promoRows w))) \<and>
     searchSuitUpKitsPrecise w keyword maxPrice limit =
       map mkKit (take (nat limit)
         (filter (preciseMatch (str ''productos'') keyword maxPrice) (suitupRows w))) \<and>
     int (length (searchPromoProductsPrecise w keyword maxPrice limit)) \<le> limit \<and>
     int (length (searchSuitUpKitsPrecise w keyword maxPrice limit)) \<le> limit \<and>
     (\<forall>third r. preciseMatch third keyword maxPrice r \<longleftrightarrow>
        truthy (r (str ''nombre'')) \<and>
        (keyword = [] \<or>
         (\<exists>field \<in> {str ''nombre'', str ''descripcion'', third}.
            \<exists>v. r field = Some v \<and> js_includes (toLowerCase v) (toLowerCase keyword))) \<and>
        (\<forall>m. maxPrice = Some m \<and> num_truthy m \<longrightarrow>
           num_gt (parseFloat (stripCurrency (orEmpty (r (str ''precio''))))) (Fin 0) \<and>
           num_le (parseFloat (stripCurrency (orEmpty (r (str ''precio''))))) m)) \<and>
     (\<forall>third r. preciseMatch third keyword maxPrice r \<longrightarrow>
        truthy (r (str ''nombre'')) \<and>
        (keyword = [] \<or> fieldIncludes r (str ''nombre'') keyword \<or>
         fieldIncludes r (str ''descripcion'') keyword \<or> fieldIncludes r third keyword) \<and>
        (\<forall>m. maxPrice = Some m \<and> num_truthy m \<longrightarrow>
           num_gt (rowPrice r) (Fin 0) \<and> num_le (rowPrice r) m \<and>
           rowPrice r \<noteq> NaN \<and> rowPrice r \<noteq> Fin 0))"
proof -
  have len: "int (length (take (nat limit) xs)) \<le> limit" for xs :: "row list"
    using assms by simp
  have lp: "int (length (searchPromoProductsPrecise w keyword maxPrice limit)) \<le> limit"
    using len by (simp add: searchPromoProductsPrecise_eq[OF assms])
  have lk: "int (length (searchSuitUpKitsPrecise w keyword maxPrice limit)) \<le> limit"
    using len by (simp add: searchSuitUpKitsPrecise_eq[OF assms])
  have spelled: "\<forall>third r. preciseMatch third keyword maxPrice r \<longleftrightarrow>
        truthy (r (str ''nombre'')) \<and>
        (keyword = [] \<or>
         (\<exists>field \<in> {str ''nombre'', str ''descripcion'', third}.
            \<exists>v. r field = Some v \<and> js_includes (toLowerCase v) (toLowerCase keyword))) \<and>
        (\<forall>m. maxPrice = Some m \<and> num_truthy m \<longrightarrow>
           num_gt (parseFloat (stripCurrency (orEmpty (r (str ''precio''))))) (Fin 0) \<and>
           num_le (parseFloat (stripCurrency (orEmpty (r (str ''precio''))))) m)"
    by (intro allI) (rule preciseMatch_spelled)
  have known: "\<forall>third r. preciseMatch third keyword maxPrice r \<longrightarrow>
        truthy (r (str ''nombre'')) \<and>
        (keyword = [] \<or> fieldIncludes r (str ''nombre'') keyword \<or>
         fieldIncludes r (str ''descripcion'') keyword \<or> fieldIncludes r third keyword) \<and>
        (\<forall>m. maxPrice = Some m \<and> num_truthy m \<longrightarrow>
           num_gt (rowPrice r) (Fin 0) \<and> num_le (rowPrice r) m \<and>
           rowPrice r \<noteq> NaN \<and> rowPrice r \<noteq> Fin 0)"
    using preciseMatch_predicates by blast
  from searchPromoProductsPrecise_eq[OF assms] searchSuitUpKitsPrecise_eq[OF assms] lp lk
    spelled known
  show ?thesis by (intro conjI)
qed

theorem precise_matcher_first_matches_witness:
  "(1::int) \<le> 3 \<and>
   searchPromoProductsPrecise demo_env (str ''OFICINA'') (Some (Fin 10)) 3 =
     map mkProduct (take (nat 3)
       (filter (preciseMatch (str ''categorias'') (str ''OFICINA'') (Some (Fin 10)))
          (promoRows demo_env))) \<and>
   map nombre (searchPromoProductsPrecise demo_env (str ''OFICINA'') (Some (Fin 10)) 3) =
     [Some (str ''Pluma'')] \<and>
   int (length (searchPromoProductsPrecise demo_env (str ''OFICINA'') (Some (Fin 10)) 3)) \<le> 3"
proof -
  have one: "(1::int) \<le> 3" by simp
  have ev: "map nombre (searchPromoProductsPrecise demo_env (str ''OFICINA'') (Some (Fin 10)) 3) =
     [Some (str ''Pluma'')]"
    by code_simp
  from precise_matcher_first_matches[OF one, of demo_env "str ''OFICINA''" "Some (Fin 10)"] one ev
  show ?thesis by blast
qed

text \<open>
  The claim as worded fails at limit 0 (the loop tests the limit after pushing, so one
  record comes back) and at ceiling 0 (a falsy ceiling is no ceiling: the mug, whose
  price is unparseable, and the cap at 120 pesos are returned).
\<close>

theorem precise_matcher_counterexample:
  "map nombre (searchPromoProductsPrecise demo_env [] None 0) = [Some (str ''Taza'')] \<and>
   \<not> int (length (searchPromoProductsPrecise demo_env [] None 0)) \<le> 0 \<and>
   map precio (searchPromoProductsPrecise demo_env [] (Some (Fin 0)) 3) =
     [Some [], Some (str ''$5''), Some (str ''$120'')] \<and>
   parseFloat (stripCurrency (orEmpty (Some []))) = NaN"
  by code_simp

text \<open>
  Two rows that only the rounding of \<open>parseFloat\<close> and the full case conversion let
  through: a price written with more digits than a double holds, under the ceiling it
  rounds to, and a name in small omega under a keyword in capital omega.
\<close>

lemma precise_matcher_rounding_and_case_examples:
  "parseFloat (str ''100.00000000000000001'') = Fin 100"
  "map nombre (searchPromoProductsPrecise
      (demo_env\<lparr>promo_csv := Some (str ''nombre,precio\<newline>Caro,$100.00000000000000001'')\<rparr>)
      [] (Some (Fin 100)) 3) = [Some (str ''Caro'')]"
  "toLowerCase [937] = [969]"
  "map nombre (searchPromoProductsPrecise
      (demo_env\<lparr>promo_csv := Some (str ''nombre\<newline>'' @ [969])\<rparr>) [937] None 3) = [Some [969]]"
  by code_simp+

section \<open>Hybrid retrieval\<close>

text \<open>
  C1. Hybrid retrieval calls the semantic search only when the precise search returned
  nothing: a non-empty precise result is formatted and returned with no call at all;
  an empty one is followed by exactly one semantic search, whose result is formatted,
  or replaced by the fixed no-results message when it is empty too.
\<close>

theorem hybrid_retrieval_semantic_only_when_precise_empty:
  "(searchPromoProductsPrecise w keyword maxPrice limit \<noteq> [] \<longrightarrow>
      searchAndFormatProducts w keyword maxPrice limit =
        (formatProductResults (searchPromoProductsPrecise w keyword maxPrice limit), [])) \<and>
   (searchPromoProductsPrecise w keyword maxPrice limit = [] \<longrightarrow>
      searchAndFormatProducts w keyword maxPrice limit =
        (if fst (searchPromoProductsVector w keyword maxPrice limit) = [] then noProductsMessage
         else formatProductResults (fst (searchPromoProductsVector w keyword maxPrice limit)),
         CalledVectorProducts # snd (searchPromoProductsVector w keyword maxPrice limit))) \<and>
   (snd (searchAndFormatProducts w keyword maxPrice limit) \<noteq> [] \<longrightarrow>
      searchPromoProductsPrecise w keyword maxPrice limit = []) \<and>
   (searchSuitUpKitsPrecise w keyword maxPrice limit \<noteq> [] \<longrightarrow>
      searchAndFormatKits w keyword maxPrice limit =
        (formatKitResults (searchSuitUpKitsPrecise w keyword maxPrice limit), [])) \<and>
   (searchSuitUpKitsPrecise w keyword maxPrice limit = [] \<longrightarrow>
      searchAndFormatKits w keyword maxPrice limit =
        (if fst (searchSuitUpKitsVector w keyword maxPrice limit) = [] then noKitsMessage
         else formatKitResults (fst (searchSuitUpKitsVector w keyword maxPrice limit)),
         CalledVectorKits # snd (searchSuitUpKitsVector w keyword maxPrice limit))) \<and>
   (snd (searchAndFormatKits w keyword maxPrice limit) \<noteq> [] \<longrightarrow>
      searchSuitUpKitsPrecise w keyword maxPrice limit = [])"
  by (simp add: searchAndFormatProducts_def searchAndFormatKits_def Let_def split: prod.splits)

lemma demo_precise_pluma:
  "map nombre (searchPromoProductsPrecise demo_env (str ''pluma'') None 3) = [Some (str ''Pluma'')]"
  by code_simp

lemma demo_precise_regalo:
  "searchPromoProductsPrecise demo_env (str ''regalo'') None 3 = []"
  "searchPromoProductsPrecise demo_env_offline (str ''regalo'') None 3 = []"
  by code_simp+

lemma demo_vector_regalo:
  "map nombre (fst (searchPromoProductsVector demo_env (str ''regalo'') None 3)) =
     [Some (str ''Taza''), Some (str ''Pluma''), Some (str ''Gorra''), Some (str ''Termo'')]"
  "snd (searchPromoProductsVector demo_env (str ''regalo'') None 3) = [CompletionRequest]"
  "searchPromoProductsVector demo_env_offline (str ''regalo'') None 3 = ([], [CompletionRequest])"
  by code_simp+

theorem hybrid_retrieval_semantic_only_when_precise_empty_witness:
  "searchPromoProductsPrecise demo_env (str ''pluma'') None 3 \<noteq> [] \<and>
   searchAndFormatProducts demo_env (str ''pluma'') None 3 =
     (formatProductResults (searchPromoProductsPrecise demo_env (str ''pluma'') None 3), []) \<and>
   searchPromoProductsPrecise demo_env (str ''regalo'') None 3 = [] \<and>
   searchAndFormatProducts demo_env (str ''regalo'') None 3 =
     (formatProductResults (fst (searchPromoProductsVector demo_env (str ''regalo'') None 3)),
      [CalledVectorProducts, CompletionRequest]) \<and>
   searchAndFormatProducts demo_env_offline (str ''regalo'') None 3 =
     (noProductsMessage, [CalledVectorProducts, CompletionRequest])"
proof -
  have a: "searchPromoProductsPrecise demo_env (str ''pluma'') None 3 \<noteq> []"
    using demo_precise_pluma by auto
  have b: "fst (searchPromoProductsVector demo_env (str ''regalo'') None 3) \<noteq> []"
    using demo_vector_regalo(1) by auto
  show ?thesis
    using hybrid_retrieval_semantic_only_when_precise_empty[of demo_env "str ''pluma''" None 3]
      hybrid_retrieval_semantic_only_when_precise_empty[of demo_env "str ''regalo''" None 3]
      hybrid_retrieval_semantic_only_when_precise_empty[of demo_env_offline "str ''regalo''" None 3]
      a b demo_precise_regalo demo_vector_regalo(2,3)
    by simp
qed

section \<open>Failures of the dataset and of the completion endpoint\<close>

text \<open>
  C9. No search lets a failure through: when the dataset file cannot be read, each of
  the four searches returns the empty list (the semantic ones without asking the
  endpoint); when the ranking completion is rejected, resolves with no choice, with a
  \<open>null\<close> content, an empty content or a content holding no number, the semantic
  searches return the empty list. The results are plain lists: there is no error value
  a caller could receive.
\<close>

theorem search_failures_give_empty_results:
  "searchPromoProductsPrecise (w\<lparr>promo_csv := None\<rparr>) keyword maxPrice limit = [] \<and>
   searchSuitUpKitsPrecise (w\<lparr>suitup_csv := None\<rparr>) keyword maxPrice limit = [] \<and>
   searchPromoProductsVector (w\<lparr>promo_csv := None\<rparr>) keyword maxPrice limit = ([], []) \<and>
   searchSuitUpKitsVector (w\<lparr>suitup_csv := None\<rparr>) keyword maxPrice limit = ([], []) \<and>
   fst (searchPromoProductsVector (w\<lparr>vector_completion := Rejected e\<rparr>) keyword maxPrice limit) = [] \<and>
   fst (searchSuitUpKitsVector (w\<lparr>vector_completion := Rejected e\<rparr>) keyword maxPrice limit) = [] \<and>
   fst (searchPromoProductsVector (w\<lparr>vector_completion := Resolved []\<rparr>) keyword maxPrice limit) = [] \<and>
   fst (searchSuitUpKitsVector (w\<lparr>vector_completion := Resolved []\<rparr>) keyword maxPrice limit) = [] \<and>
   fst (searchPromoProductsVector (w\<lparr>vector_completion := Resolved (None # others)\<rparr>)
          keyword maxPrice limit) = [] \<and>
   fst (searchSuitUpKitsVector (w\<lparr>vector_completion := Resolved (None # others)\<rparr>)
          keyword maxPrice limit) = [] \<and>
   fst (searchPromoProductsVector (w\<lparr>vector_completion := Resolved (Some [] # others)\<rparr>)
          keyword maxPrice limit) = [] \<and>
   fst (searchSuitUpKitsVector (w\<lparr>vector_completion := Resolved (Some [] # others)\<rparr>)
          keyword maxPrice limit) = [] \<and>
   fst (searchPromoProductsVector
          (w\<lparr>vector_completion := Resolved (Some (str ''no tengo resultados'') # others)\<rparr>)
          keyword maxPrice limit) = [] \<and>
   fst (searchSuitUpKitsVector
          (w\<lparr>vector_completion := Resolved (Some (str ''no tengo resultados'') # others)\<rparr>)
          keyword maxPrice limit) = []"
proof -
  have e: "parseMatches (Some []) = []"
    by code_simp
  have m: "parseMatches (Some (str ''no tengo resultados'')) = []"
    by code_simp
  show ?thesis
    by (simp add: searchPromoProductsPrecise_def searchSuitUpKitsPrecise_def
        searchPromoProductsVector_def searchSuitUpKitsVector_def semanticResults_def
        parseMatches_def[of None] e m split: option.splits)
qed

theorem search_failures_give_empty_results_witness:
  "searchPromoProductsPrecise (demo_env\<lparr>promo_csv := None\<rparr>) (str ''pluma'') None 3 = [] \<and>
   searchPromoProductsPrecise demo_env (str ''pluma'') None 3 \<noteq> [] \<and>
   searchPromoProductsVector (demo_env\<lparr>promo_csv := None\<rparr>) (str ''regalo'') None 3 = ([], []) \<and>
   fst (searchPromoProductsVector (demo_env\<lparr>vector_completion := Rejected (str ''timeout'')\<rparr>)
          (str ''regalo'') None 3) = [] \<and>
   fst (searchPromoProductsVector demo_env (str ''regalo'') None 3) \<noteq> []"
proof -
  have a: "searchPromoProductsPrecise demo_env (str ''pluma'') None 3 \<noteq> []"
    using demo_precise_pluma by auto
  have b: "fst (searchPromoProductsVector demo_env (str ''regalo'') None 3) \<noteq> []"
    using demo_vector_regalo(1) by auto
  show ?thesis
    using search_failures_give_empty_results[of demo_env "str ''pluma''" None 3 "str ''timeout''"]
      search_failures_give_empty_results[of demo_env "str ''regalo''" None 3 "str ''timeout''"]
      a b
    by simp
qed

section \<open>The price filter of the two tiers\<close>

lemma precise_loop_only_matches:
  "x \<in> set (precise_loop build third headers keyword maxPrice limit lines found) \<Longrightarrow>
   x \<in> set found \<or>
   (\<exists>l \<in> set lines. trim l \<noteq> [] \<and> preciseMatch third keyword maxPrice (mkRow headers l) \<and>
      x = build (mkRow headers l))"
proof (induction lines arbitrary: found)
  case Nil
  then show ?case by simp
next
  case (Cons line rest)
  show ?case
  proof (cases "trim line = []")
    case True
    with Cons.prems have "x \<in> set (precise_loop build third headers keyword maxPrice limit rest found)"
      by simp
    from Cons.IH[OF this] show ?thesis by auto
  next
    case nonblank: False
    define found' where
      "found' = (if preciseMatch third keyword maxPrice (mkRow headers line)
                 then found @ [build (mkRow headers line)] else found)"
    have step: "x \<in> set found' \<Longrightarrow> ?thesis"
      using nonblank by (auto simp: found'_def split: if_splits)
    show ?thesis
    proof (cases "limit \<le> int (length found')")
      case True
      with Cons.prems nonblank have "x \<in> set found'"
        by (simp add: Let_def found'_def)
      then show ?thesis by (rule step)
    next
      case False
      with Cons.prems nonblank
      have "x \<in> set (precise_loop build third headers keyword maxPrice limit rest found')"
        by (simp add: Let_def found'_def)
      from Cons.IH[OF this] step show ?thesis by auto
    qed
  qed
qed

lemma precise_excludes_unknown_price:
  assumes "ceilingGiven maxPrice"
    and "rowPrice r = NaN \<or> rowPrice r = Fin 0"
  shows "\<not> preciseMatch third keyword maxPrice r"
  using assms num_gt_zero_known[of "rowPrice r"]
  by (auto simp: preciseMatch_def withinBudget_def ceilingGiven_def split: option.splits)

lemma searchPromoProductsPrecise_known_price:
  assumes "ceilingGiven maxPrice"
    and "p \<in> set (searchPromoProductsPrecise w keyword maxPrice limit)"
  shows "\<exists>r. p = mkProduct r \<and> rowPrice r \<noteq> NaN \<and> rowPrice r \<noteq> Fin 0"
proof (cases "promo_csv w")
  case None
  with assms(2) show ?thesis by (simp add: searchPromoProductsPrecise_def)
next
  case (Some csvData)
  with assms(2) precise_loop_only_matches[where found = "[]" and x = p and build = mkProduct]
  obtain l where "preciseMatch (str ''categorias'') keyword maxPrice
      (mkRow (headersOf (js_split csvData NEWLINE)) l)"
    and "p = mkProduct (mkRow (headersOf (js_split csvData NEWLINE)) l)"
    by (fastforce simp: searchPromoProductsPrecise_def Let_def)
  with precise_excludes_unknown_price[OF assms(1)] show ?thesis by blast
qed

lemma searchSuitUpKitsPrecise_known_price:
  assumes "ceilingGiven maxPrice"
    and "k \<in> set (searchSuitUpKitsPrecise w keyword maxPrice limit)"
  shows "\<exists>r. k = mkKit r \<and> rowPrice r \<noteq> NaN \<and> rowPrice r \<noteq> Fin 0"
proof (cases "suitup_csv w")
  case None
  with assms(2) show ?thesis by (simp add: searchSuitUpKitsPrecise_def)
next
  case (Some csvData)
  with assms(2) precise_loop_only_matches[where found = "[]" and x = k and build = mkKit]
  obtain l where "preciseMatch (str ''productos'') keyword maxPrice
      (mkRow (headersOf (js_split csvData NEWLINE)) l)"
    and "k = mkKit (mkRow (headersOf (js_split csvData NEWLINE)) l)"
    by (fastforce simp: searchSuitUpKitsPrecise_def Let_def)
  with precise_excludes_unknown_price[OF assms(1)] show ?thesis by blast
qed

lemma semanticDrop_iff:
  "semanticDrop maxPrice r \<longleftrightarrow>
   (\<exists>m. maxPrice = Some m \<and> num_truthy m \<and> num_gt (rowPrice r) (Fin 0) \<and> num_gt (rowPrice r) m)"
  by (cases maxPrice) (simp_all add: semanticDrop_def)

lemma semantic_keeps_unknown_price:
  assumes "rowPrice r = NaN \<or> rowPrice r = Fin 0"
  shows "\<not> semanticDrop maxPrice r"
  using assms num_gt_zero_known[of "rowPrice r"] by (auto simp: semanticDrop_iff)

lemma semanticResults_member:
  assumes "index \<in> set matches" and "0 \<le> index" and "nat index < length candidates"
    and "\<not> semanticDrop maxPrice (candidates ! nat index)"
  shows "build (candidates ! nat index) \<in> set (semanticResults build candidates maxPrice matches)"
  using assms by (force simp: semanticResults_def pickCandidate_def)

lemma semanticResults_eq:
  "semanticResults build candidates maxPrice matches =
   map build
     (filter (\<lambda>r. \<not> semanticDrop maxPrice r)
        (map (\<lambda>index. candidates ! nat index)
           (filter (\<lambda>index. 0 \<le> index \<and> nat index < length candidates) matches)))"
  by (induction matches) (simp_all add: semanticResults_def pickCandidate_def)

lemma semanticDrop_spelled:
  "semanticDrop maxPrice r \<longleftrightarrow>
   (\<exists>m. maxPrice = Some m \<and> num_truthy m \<and>
        num_gt (parseFloat (stripCurrency (orEmpty (r (str ''precio''))))) (Fin 0) \<and>
        num_gt (parseFloat (stripCurrency (orEmpty (r (str ''precio''))))) m)"
  by (simp add: semanticDrop_iff rowPrice_def)

lemma searchPromoProductsVector_eq:
  assumes "promo_csv w = Some csvData" and "vector_completion w = Resolved (reply # others)"
  shows "fst (searchPromoProductsVector w keyword maxPrice limit) =
     map mkProduct
       (filter (\<lambda>r. \<not> (\<exists>m. maxPrice = Some m \<and> num_truthy m \<and>
                    num_gt (parseFloat (stripCurrency (orEmpty (r (str ''precio''))))) (Fin 0) \<and>
                    num_gt (parseFloat (stripCurrency (orEmpty (r (str ''precio''))))) m))
          (map (\<lambda>index. candidateRows 50 csvData ! nat index)
             (filter (\<lambda>index. 0 \<le> index \<and> nat index < length (candidateRows 50 csvData))
                (parseMatches reply))))"
  using assms
  by (simp add: searchPromoProductsVector_def semanticResults_eq semanticDrop_spelled)

lemma searchSuitUpKitsVector_eq:
  assumes "suitup_csv w = Some csvData" and "vector_completion w = Resolved (reply # others)"
  shows "fst (searchSuitUpKitsVector w keyword maxPrice limit) =
     map mkKit
       (filter (\<lambda>r. \<not> (\<exists>m. maxPrice = Some m \<and> num_truthy m \<and>
                    num_gt (parseFloat (stripCurrency (orEmpty (r (str ''precio''))))) (Fin 0) \<and>
                    num_gt (parseFloat (stripCurrency (orEmpty (r (str ''precio''))))) m))
          (map (\<lambda>index. candidateRows 30 csvData ! nat index)
             (filter (\<lambda>index. 0 \<le> index \<and> nat index < length (candidateRows 30 csvData))
                (parseMatches reply))))"
  using assms
  by (simp add: searchSuitUpKitsVector_def semanticResults_eq semanticDrop_spelled)

text \<open>
  C10 (amended). Each semantic search returns, in the order of the reply, the
  candidates the reply names by an index within the list, except those that its local
  price filter drops; and the filter drops a record exactly when a ceiling other than
  zero and NaN is given and the parsed price is above zero and strictly above the
  ceiling. So, whatever the ceiling, a selected record whose price is unparseable or
  zero is returned by the semantic tier, whereas under a ceiling other than zero and
  NaN the precise tier returns only records with a parsed price other than NaN and
  zero. (A ceiling of zero or NaN is no ceiling for either tier.)
\<close>

theorem semantic_tier_keeps_unknown_price:
  "(promo_csv w = Some csvData \<and> vector_completion w = Resolved (reply # others) \<longrightarrow>
    fst (searchPromoProductsVector w keyword maxPrice limit) =
      map mkProduct
        (filter (\<lambda>r. \<not> (\<exists>m. maxPrice = Some m \<and> num_truthy m \<and>
                     num_gt (parseFloat (stripCurrency (orEmpty (r (str ''precio''))))) (Fin 0) \<and>
                     num_gt (parseFloat (stripCurrency (orEmpty (r (str ''precio''))))) m))
           (map (\<lambda>index. candidateRows 50 csvData ! nat index)
              (filter (\<lambda>index. 0 \<le> index \<and> nat index < length (candidateRows 50 csvData))
                 (parseMatches reply))))) \<and>
   (suitup_csv w = Some csvData \<and> vector_completion w = Resolved (reply # others) \<longrightarrow>
    fst (searchSuitUpKitsVector w keyword maxPrice limit) =
      map mkKit
        (filter (\<lambda>r. \<not> (\<exists>m. maxPrice = Some m \<and> num_truthy m \<and>
                     num_gt (parseFloat (stripCurrency (orEmpty (r (str ''precio''))))) (Fin 0) \<and>
                     num_gt (parseFloat (stripCurrency (orEmpty (r (str ''precio''))))) m))
           (map (\<lambda>index. candidateRows 30 csvData ! nat index)
              (filter (\<lambda>index. 0 \<le> index \<and> nat index < length (candidateRows 30 csvData))
                 (parseMatches reply))))) \<and>
   (promo_csv w = Some csvData \<and> vector_completion w = Resolved (reply # others) \<and>
    index \<in> set (parseMatches reply) \<and> 0 \<le> index \<and>
    nat index < length (candidateRows 50 csvData) \<and>
    (rowPrice (candidateRows 50 csvData ! nat index) = NaN \<or>
     rowPrice (candidateRows 50 csvData ! nat index) = Fin 0) \<longrightarrow>
    mkProduct (candidateRows 50 csvData ! nat index) \<in>
      set (fst (searchPromoProductsVector w keyword maxPrice limit))) \<and>
   (suitup_csv w = Some csvData \<and> vector_completion w = Resolved (reply # others) \<and>
    index \<in> set (parseMatches reply) \<and> 0 \<le> index \<and>
    nat index < length (candidateRows 30 csvData) \<and>
    (rowPrice (candidateRows 30 csvData ! nat index) = NaN \<or>
     rowPrice (candidateRows 30 csvData ! nat index) = Fin 0) \<longrightarrow>
    mkKit (candidateRows 30 csvData ! nat index) \<in>
      set (fst (searchSuitUpKitsVector w keyword maxPrice limit))) \<and>
   (ceilingGiven maxPrice \<longrightarrow>
    (\<forall>p \<in> set (searchPromoProductsPrecise w keyword maxPrice limit).
       parseFloat (stripCurrency (orEmpty (precio p))) \<noteq> NaN \<and>
       parseFloat (stripCurrency (orEmpty (precio p))) \<noteq> Fin 0) \<and>
    (\<forall>k \<in> set (searchSuitUpKitsPrecise w keyword maxPrice limit).
       parseFloat (stripCurrency (orEmpty (kit_precio k))) \<noteq> NaN \<and>
       parseFloat (stripCurrency (orEmpty (kit_precio k))) \<noteq> Fin 0))"
proof -
  have products:
    "mkProduct (candidateRows 50 csvData ! nat index) \<in>
       set (fst (searchPromoProductsVector w keyword maxPrice limit))"
    if "promo_csv w = Some csvData" "vector_completion w = Resolved (reply # others)"
      "index \<in> set (parseMatches reply)" "0 \<le> index"
      "nat index < length (candidateRows 50 csvData)"
      "rowPrice (candidateRows 50 csvData ! nat index) = NaN \<or>
       rowPrice (candidateRows 50 csvData ! nat index) = Fin 0"
    using that semanticResults_member[OF that(3,4,5) semantic_keeps_unknown_price[OF that(6)]]
    by (simp add: searchPromoProductsVector_def)
  have kits:
    "mkKit (candidateRows 30 csvData ! nat index) \<in>
       set (fst (searchSuitUpKitsVector w keyword maxPrice limit))"
    if "suitup_csv w = Some csvData" "vector_completion w = Resolved (reply # others)"
      "index \<in> set (parseMatches reply)" "0 \<le> index"
      "nat index < length (candidateRows 30 csvData)"
      "rowPrice (candidateRows 30 csvData ! nat index) = NaN \<or>
       rowPrice (candidateRows 30 csvData ! nat index) = Fin 0"
    using that semanticResults_member[OF that(3,4,5) semantic_keeps_unknown_price[OF that(6)]]
    by (simp add: searchSuitUpKitsVector_def)
  have pp: "parseFloat (stripCurrency (orEmpty (precio p))) \<noteq> NaN \<and>
            parseFloat (stripCurrency (orEmpty (precio p))) \<noteq> Fin 0"
    if "ceilingGiven maxPrice" "p \<in> set (searchPromoProductsPrecise w keyword maxPrice limit)" for p
    using searchPromoProductsPrecise_known_price[OF that]
    by (auto simp: mkProduct_def rowPrice_def)
  have kp: "parseFloat (stripCurrency (orEmpty (kit_precio k))) \<noteq> NaN \<and>
            parseFloat (stripCurrency (orEmpty (kit_precio k))) \<noteq> Fin 0"
    if "ceilingGiven maxPrice" "k \<in> set (searchSuitUpKitsPrecise w keyword maxPrice limit)" for k
    using searchSuitUpKitsPrecise_known_price[OF that]
    by (auto simp: mkKit_def rowPrice_def)
  show ?thesis
    using searchPromoProductsVector_eq[of w csvData reply others keyword maxPrice limit]
      searchSuitUpKitsVector_eq[of w csvData reply others keyword maxPrice limit]
      products kits pp kp
    by blast
qed

theorem semantic_tier_keeps_unknown_price_witness:
  "promo_csv demo_env = Some demo_promo_csv \<and>
   vector_completion demo_env = Resolved [Some (str ''0,1,2,3'')] \<and>
   0 \<in> set (parseMatches (Some (str ''0,1,2,3''))) \<and>
   nat 0 < length (candidateRows 50 demo_promo_csv) \<and>
   rowPrice (candidateRows 50 demo_promo_csv ! nat 0) = NaN \<and>
   mkProduct (candidateRows 50 demo_promo_csv ! nat 0) \<in>
     set (fst (searchPromoProductsVector demo_env (str ''regalo'') (Some (Fin 100)) 3)) \<and>
   map nombre (fst (searchPromoProductsVector demo_env (str ''regalo'') (Some (Fin 100)) 3)) =
     [Some (str ''Taza''), Some (str ''Pluma'')] \<and>
   map nombre (fst (searchPromoProductsVector demo_env (str ''regalo'') (Some (Fin 120)) 3)) =
     [Some (str ''Taza''), Some (str ''Pluma''), Some (str ''Gorra'')] \<and>
   ceilingGiven (Some (Fin 100)) \<and>
   map nombre (searchPromoProductsPrecise demo_env [] (Some (Fin 100)) 3) = [Some (str ''Pluma'')]"
proof -
  have h1: "promo_csv demo_env = Some demo_promo_csv"
    and h2: "vector_completion demo_env = Resolved [Some (str ''0,1,2,3'')]"
    by (simp_all add: demo_env_def)
  have h3: "0 \<in> set (parseMatches (Some (str ''0,1,2,3'')))" by code_simp
  have h4: "nat 0 < length (candidateRows 50 demo_promo_csv)" by code_simp
  have h5: "rowPrice (candidateRows 50 demo_promo_csv ! nat 0) = NaN" by code_simp
  have e1: "map nombre (fst (searchPromoProductsVector demo_env (str ''regalo'') (Some (Fin 100)) 3)) =
     [Some (str ''Taza''), Some (str ''Pluma'')]" by code_simp
  have e2: "map nombre (searchPromoProductsPrecise demo_env [] (Some (Fin 100)) 3) = [Some (str ''Pluma'')]"
    by code_simp
  have e3: "ceilingGiven (Some (Fin 100))" by code_simp
  have e4: "map nombre (fst (searchPromoProductsVector demo_env (str ''regalo'') (Some (Fin 120)) 3)) =
     [Some (str ''Taza''), Some (str ''Pluma''), Some (str ''Gorra'')]" by code_simp
  from semantic_tier_keeps_unknown_price[where maxPrice = "Some (Fin 100)" and w = demo_env
      and csvData = demo_promo_csv and reply = "Some (str ''0,1,2,3'')" and others = "[]"
      and index = 0 and keyword = "str ''regalo''" and limit = 3]
    h1 h2 h3 h4 h5 e1 e2 e3 e4
  show ?thesis by blast
qed

text \<open>
  As worded the claim fails for the precise tier at ceiling 0: the mug, whose price is
  unparseable, is returned.
\<close>

theorem precise_tier_ceiling_zero_counterexample:
  "map nombre (searchPromoProductsPrecise demo_env (str ''taza'') (Some (Fin 0)) 3) =
     [Some (str ''Taza'')] \<and>
   map (\<lambda>p. parseFloat (stripCurrency (orEmpty (precio p))))
     (searchPromoProductsPrecise demo_env (str ''taza'') (Some (Fin 0)) 3) = [NaN]"
  by code_simp

text \<open>
  A price is compared as the double it parses to: \<open>$0.30\<close> is the double nearest to
  three tenths, which is not above a ceiling of \<open>0.3\<close>, so the row is kept.
\<close>

lemma semantic_tier_rounding_example:
  "parseFloat (str ''0.30'') = Fin (5404319552844595 / 18014398509481984)"
  "parseFloat (str ''0.3'') = Fin (5404319552844595 / 18014398509481984)"
  "map nombre (fst (searchPromoProductsVector
      (demo_env\<lparr>promo_csv := Some (str ''nombre,precio\<newline>Chicle,$0.30''),
                vector_completion := Resolved [Some (str ''0'')]\<rparr>)
      (str ''dulce'') (Some (parseFloat (str ''0.3''))) 3)) = [Some (str ''Chicle'')]"
  by code_simp+

section \<open>Semantic matcher: the reply and the limit\<close>

text \<open>
  C7. The reply is split on commas, each piece trimmed and read by \<open>parseInt\<close>, pieces
  that give NaN are discarded and indices outside the candidate list are dropped; but
  the result is not cut to \<open>limit\<close>: a reply naming four candidates under limit 3
  returns four records.
\<close>

theorem semantic_matcher_exceeds_limit:
  "parseMatches (Some (str '' 2, x,7 ,-1,0x1'')) = [2, 7, - 1, 1] \<and>
   map nombre (semanticResults mkProduct (candidateRows 50 demo_promo_csv) None [2, 7, - 1, 1]) =
     [Some (str ''Gorra''), Some (str ''Pluma'')] \<and>
   vector_completion demo_env = Resolved [Some (str ''0,1,2,3'')] \<and>
   map nombre (fst (searchPromoProductsVector demo_env (str ''regalo'') None 3)) =
     [Some (str ''Taza''), Some (str ''Pluma''), Some (str ''Gorra''), Some (str ''Termo'')] \<and>
   \<not> int (length (fst (searchPromoProductsVector demo_env (str ''regalo'') None 3))) \<le> 3"
  by code_simp

section \<open>The row parser\<close>

lemma filter_upt_Cons:
  "filter P [0..<Suc n] = (if P 0 then [0] else []) @ map Suc (filter (\<lambda>i. P (Suc i)) [0..<n])"
proof -
  have "[0..<Suc n] = 0 # map Suc [0..<n]"
    by (simp only: upt_conv_Cons[of 0 "Suc n"] map_Suc_upt)
  then show ?thesis
    by (simp only: filter.simps filter_map comp_def) simp
qed

lemma splits_after_Cons:
  "length (filter (\<lambda>i. (c # cs) ! i = COMMA \<and> (odd (count_list (take i (c # cs)) QUOTE) = inQ))
             [0..<Suc (length cs)]) =
   (if c = COMMA \<and> \<not> inQ then 1 else 0) +
   length (filter (\<lambda>i. cs ! i = COMMA \<and>
                        (odd (count_list (take i cs) QUOTE) = (if c = QUOTE then \<not> inQ else inQ)))
             [0..<length cs])"
  by (simp only: filter_upt_Cons) (auto simp del: upt_Suc intro!: arg_cong[where f = length] filter_cong)


lemma parseLine_loop_length:
  "length (parseLine_loop cs vals cur inQ) =
   length vals + 1 +
   length (filter (\<lambda>i. cs ! i = COMMA \<and> (odd (count_list (take i cs) QUOTE) = inQ))
             [0..<length cs])"
proof (induction cs arbitrary: vals cur inQ)
  case Nil
  then show ?case by simp
next
  case (Cons c cs)
  have "length (parseLine_loop (c # cs) vals cur inQ) =
      length vals + 1 +
      ((if c = COMMA \<and> \<not> inQ then 1 else 0) +
       length (filter (\<lambda>i. cs ! i = COMMA \<and>
                            (odd (count_list (take i cs) QUOTE) = (if c = QUOTE then \<not> inQ else inQ)))
                 [0..<length cs]))"
    by (simp add: Cons.IH del: upt_Suc)
  then show ?case
    by (simp only: length_Cons splits_after_Cons)
qed

lemma parseLine_field_count:
  "length (parseLine line) = Suc (length (unquotedCommas line))"
proof -
  have "(\<lambda>i. line ! i = COMMA \<and> (odd (count_list (take i line) QUOTE) = False)) =
        (\<lambda>i. line ! i = COMMA \<and> \<not> insideQuotedField line i)"
    by (simp add: insideQuotedField_def)
  then show ?thesis
    by (simp add: parseLine_def unquotedCommas_def parseLine_loop_length)
qed

lemma parseLine_loop_inside_quotes:
  "QUOTE \<notin> set q \<Longrightarrow>
   parseLine_loop (q @ QUOTE # rest) vals cur True = parseLine_loop rest vals (cur @ q) False"
  by (induction q arbitrary: cur) simp_all

lemma parseLine_loop_quoted_field:
  "QUOTE \<notin> set q \<Longrightarrow>
   parseLine_loop (QUOTE # q @ QUOTE # rest) vals cur False =
   parseLine_loop rest vals (cur @ q) False"
  by (simp add: parseLine_loop_inside_quotes)

lemma assignFields_keeps_empty:
  "r h = Some [] \<Longrightarrow> length vals \<le> k \<Longrightarrow> assignFields hs k vals r h = Some []"
  by (induction hs arbitrary: k r) (simp_all add: fieldOrEmpty_def)

lemma assignFields_missing:
  "i < length hs \<Longrightarrow> length vals \<le> k + i \<Longrightarrow> assignFields hs k vals r (hs ! i) = Some []"
proof (induction hs arbitrary: k r i)
  case Nil
  then show ?case by simp
next
  case (Cons h hs)
  show ?case
  proof (cases i)
    case 0
    with Cons.prems show ?thesis
      by (simp add: assignFields_keeps_empty fieldOrEmpty_def)
  next
    case (Suc j)
    with Cons.prems Cons.IH[of j "Suc k"] show ?thesis by simp
  qed
qed

lemma mkRow_missing_field:
  "i < length headers \<Longrightarrow> length (parseLine line) \<le> i \<Longrightarrow> mkRow headers line (headers ! i) = Some []"
  by (simp add: mkRow_def assignFields_missing)

lemma csvToJsonl_loop_named:
  "d \<in> set (csvToJsonl_loop productType headers lines jsonlData) \<Longrightarrow>
   d \<in> set jsonlData \<or>
   (\<exists>l \<in> set lines. truthy (mkRow headers l (str ''nombre'')) \<and> d = mkDoc productType (mkRow headers l))"
proof (induction lines arbitrary: jsonlData)
  case Nil
  then show ?case by simp
next
  case (Cons line rest)
  show ?case
  proof (cases "trim line = [] \<or> \<not> truthy (mkRow headers line (str ''nombre''))")
    case True
    with Cons.prems have "d \<in> set (csvToJsonl_loop productType headers rest jsonlData)"
      by (auto split: if_splits)
    from Cons.IH[OF this] show ?thesis by auto
  next
    case False
    with Cons.prems have "d \<in> set (csvToJsonl_loop productType headers rest
        (jsonlData @ [mkDoc productType (mkRow headers line)]))"
      by (auto split: if_splits)
    from Cons.IH[OF this] False show ?thesis by auto
  qed
qed

lemma mkDoc_nombre:
  "map_of (metadata (mkDoc productType r)) (str ''nombre'') = Some (orEmpty (r (str ''nombre'')))"
proof -
  have "str ''sku'' \<noteq> str ''nombre''" by code_simp
  then show ?thesis
    by (cases productType) (simp_all add: mkDoc_def)
qed

lemma csvToJsonl_named:
  assumes "csvToJsonl w csvPath productType = Inr docs" and "d \<in> set docs"
  shows "\<exists>n. map_of (metadata d) (str ''nombre'') = Some n \<and> n \<noteq> []"
proof -
  from assms obtain headers lines where "d \<in> set (csvToJsonl_loop productType headers lines [])"
    by (auto simp: csvToJsonl_def Let_def split: sum.splits)
  from csvToJsonl_loop_named[OF this] obtain r
    where "truthy (r (str ''nombre''))" and "d = mkDoc productType r"
    by auto
  then show ?thesis
    by (auto simp: mkDoc_nombre truthy_def orEmpty_def split: option.splits)
qed

lemma searchPromoProductsPrecise_named:
  assumes "p \<in> set (searchPromoProductsPrecise w keyword maxPrice limit)"
  shows "truthy (nombre p)"
proof (cases "promo_csv w")
  case None
  with assms show ?thesis by (simp add: searchPromoProductsPrecise_def)
next
  case (Some csvData)
  with assms precise_loop_only_matches[where found = "[]" and x = p and build = mkProduct]
  obtain r where "preciseMatch (str ''categorias'') keyword maxPrice r" and "p = mkProduct r"
    by (fastforce simp: searchPromoProductsPrecise_def Let_def)
  then show ?thesis by (simp add: preciseMatch_def mkProduct_def)
qed

lemma searchSuitUpKitsPrecise_named:
  assumes "k \<in> set (searchSuitUpKitsPrecise w keyword maxPrice limit)"
  shows "truthy (kit_nombre k)"
proof (cases "suitup_csv w")
  case None
  with assms show ?thesis by (simp add: searchSuitUpKitsPrecise_def)
next
  case (Some csvData)
  with assms precise_loop_only_matches[where found = "[]" and x = k and build = mkKit]
  obtain r where "preciseMatch (str ''productos'') keyword maxPrice r" and "k = mkKit r"
    by (fastforce simp: searchSuitUpKitsPrecise_def Let_def)
  then show ?thesis by (simp add: preciseMatch_def mkKit_def)
qed


lemma split_loop_length:
  "length (split_loop sep cur s) = Suc (count_list s sep)"
  by (induction s arbitrary: cur) simp_all

lemma split_loop_pieces:
  "l \<in> set (split_loop sep cur s) \<Longrightarrow> sep \<notin> set cur \<Longrightarrow> sep \<notin> set l"
proof (induction s arbitrary: cur)
  case Nil
  then show ?case by simp
next
  case (Cons c cs)
  show ?case
  proof (cases "c = sep")
    case True
    with Cons.prems have "l = cur \<or> l \<in> set (split_loop sep [] cs)" by simp
    then show ?thesis
    proof
      assume "l = cur"
      with Cons.prems show ?thesis by simp
    next
      assume "l \<in> set (split_loop sep [] cs)"
      from Cons.IH[OF this] show ?thesis by simp
    qed
  next
    case False
    with Cons.prems have "l \<in> set (split_loop sep (cur @ [c]) cs)" by simp
    from Cons.IH[OF this] False Cons.prems show ?thesis by simp
  qed
qed

lemma js_split_length: "length (js_split s sep) = Suc (count_list s sep)"
  by (simp add: js_split_def split_loop_length)

lemma split_loop_concat:
  "concat (map (\<lambda>l. l @ [sep]) (split_loop sep cur s)) = cur @ s @ [sep]"
  by (induction s arbitrary: cur) simp_all

lemma trim_subset: "set (trim s) \<subseteq> set s"
proof -
  have "set (dropWhile isWhiteSpace (rev (dropWhile isWhiteSpace s))) \<subseteq> set (rev (dropWhile isWhiteSpace s))"
    by (meson set_dropWhileD subsetI)
  moreover have "set (dropWhile isWhiteSpace s) \<subseteq> set s"
    by (meson set_dropWhileD subsetI)
  ultimately show ?thesis by (auto simp: trim_def)
qed

lemma js_split_nonempty: "js_split s sep \<noteq> []"
  using js_split_length[of s sep] by (cases "js_split s sep") simp_all

lemma headersOf_split:
  "headersOf (js_split csvData NEWLINE) = map trim (js_split (hd (js_split csvData NEWLINE)) COMMA)"
  using js_split_nonempty[of csvData NEWLINE]
  by (cases "js_split csvData NEWLINE") (simp_all add: headersOf_def)

lemma headersOf_length:
  "length (headersOf (js_split csvData NEWLINE)) =
   Suc (count_list (hd (js_split csvData NEWLINE)) COMMA)"
  by (simp only: headersOf_split length_map js_split_length)

lemma headersOf_no_comma:
  assumes "h \<in> set (headersOf (js_split csvData NEWLINE))"
  shows "COMMA \<notin> set h"
proof -
  from assms obtain p where p: "p \<in> set (js_split (hd (js_split csvData NEWLINE)) COMMA)" and h: "h = trim p"
    by (auto simp: headersOf_split)
  from p have "COMMA \<notin> set p"
    using split_loop_pieces[of p COMMA "[]"] by (simp add: js_split_def)
  with h trim_subset[of p] show ?thesis by auto
qed

lemma dataRows_lines:
  "dataRows bound csvData =
   map (\<lambda>l. assignFields (headersOf (js_split csvData NEWLINE)) 0 (parseLine l) Map.empty)
     (filter (\<lambda>l. trim l \<noteq> []) (take (bound - 1) (tl (js_split csvData NEWLINE))))"
  by (simp add: dataRows_def Let_def scannedLines_def mkRow_def)

text \<open>
  C8 (amended). Every table text is first cut into lines at every line break, and its
  first line into header names at every comma; quote characters are not looked at in
  either step (the lines are exactly the stretches between the line breaks, the header
  names hold no comma). Each row is then made from one line: within a data line the
  row parser splits exactly at the commas that are not inside a quoted stretch of that
  line (the flag starts unset on each line and toggles on each quote character): the
  number of fields is one more than the number of such commas, and a quoted stretch is
  appended to the current field whole, commas included. A header whose position is
  beyond the fields of the line gets the empty string (nothing is thrown). Every row
  without a value under the header \<open>nombre\<close> is skipped: \<open>csvToJsonl\<close>, the precise
  searches and the candidate lists of the semantic searches hold only rows with a name.
\<close>

theorem row_parser_quotes_padding_names:
  "length (js_split csvData NEWLINE) = Suc (count_list csvData NEWLINE) \<and>
   concat (map (\<lambda>l. l @ [NEWLINE]) (js_split csvData NEWLINE)) = csvData @ [NEWLINE] \<and>
   (\<forall>l \<in> set (js_split csvData NEWLINE). NEWLINE \<notin> set l) \<and>
   length (headersOf (js_split csvData NEWLINE)) =
     Suc (count_list (hd (js_split csvData NEWLINE)) COMMA) \<and>
   (\<forall>h \<in> set (headersOf (js_split csvData NEWLINE)). COMMA \<notin> set h) \<and>
   dataRows bound csvData =
     map (\<lambda>l. assignFields (headersOf (js_split csvData NEWLINE)) 0 (parseLine l) Map.empty)
       (filter (\<lambda>l. trim l \<noteq> []) (take (bound - 1) (tl (js_split csvData NEWLINE)))) \<and>
   length (parseLine line) = Suc (length (unquotedCommas line)) \<and>
   (QUOTE \<notin> set q \<longrightarrow>
      parseLine_loop (QUOTE # q @ QUOTE # rest) vals cur False =
      parseLine_loop rest vals (cur @ q) False) \<and>
   (i < length headers \<and> length (parseLine line) \<le> i \<longrightarrow>
      mkRow headers line (headers ! i) = Some []) \<and>
   (\<forall>docs. csvToJsonl w csvPath productType = Inr docs \<longrightarrow>
      (\<forall>d \<in> set docs. \<exists>n. map_of (metadata d) (str ''nombre'') = Some n \<and> n \<noteq> [])) \<and>
   (\<forall>p \<in> set (searchPromoProductsPrecise w keyword maxPrice limit). truthy (nombre p)) \<and>
   (\<forall>k \<in> set (searchSuitUpKitsPrecise w keyword maxPrice limit). truthy (kit_nombre k)) \<and>
   (\<forall>r \<in> set (candidateRows bound csvData). truthy (r (str ''nombre'')))"
proof -
  have t1: "length (js_split csvData NEWLINE) = Suc (count_list csvData NEWLINE)"
    by (rule js_split_length)
  have t2: "concat (map (\<lambda>l. l @ [NEWLINE]) (js_split csvData NEWLINE)) = csvData @ [NEWLINE]"
    by (simp add: js_split_def split_loop_concat)
  have t3: "\<forall>l \<in> set (js_split csvData NEWLINE). NEWLINE \<notin> set l"
    using split_loop_pieces[of _ NEWLINE "[]" csvData] by (simp add: js_split_def)
  have t4: "length (headersOf (js_split csvData NEWLINE)) =
      Suc (count_list (hd (js_split csvData NEWLINE)) COMMA)"
    by (rule headersOf_length)
  have t5: "\<forall>h \<in> set (headersOf (js_split csvData NEWLINE)). COMMA \<notin> set h"
    using headersOf_no_comma[of _ csvData] by blast
  have t6: "dataRows bound csvData =
      map (\<lambda>l. assignFields (headersOf (js_split csvData NEWLINE)) 0 (parseLine l) Map.empty)
        (filter (\<lambda>l. trim l \<noteq> []) (take (bound - 1) (tl (js_split csvData NEWLINE))))"
    by (rule dataRows_lines)
  have l1: "length (parseLine line) = Suc (length (unquotedCommas line))"
    by (rule parseLine_field_count)
  have l2: "QUOTE \<notin> set q \<longrightarrow>
      parseLine_loop (QUOTE # q @ QUOTE # rest) vals cur False =
      parseLine_loop rest vals (cur @ q) False"
    using parseLine_loop_quoted_field[of q rest vals cur] by blast
  have l3: "i < length headers \<and> length (parseLine line) \<le> i \<longrightarrow>
      mkRow headers line (headers ! i) = Some []"
    using mkRow_missing_field[of i headers line] by blast
  have n1: "\<forall>docs. csvToJsonl w csvPath productType = Inr docs \<longrightarrow>
      (\<forall>d \<in> set docs. \<exists>n. map_of (metadata d) (str ''nombre'') = Some n \<and> n \<noteq> [])"
    using csvToJsonl_named[of w csvPath productType] by blast
  have n2: "\<forall>p \<in> set (searchPromoProductsPrecise w keyword maxPrice limit). truthy (nombre p)"
    using searchPromoProductsPrecise_named[of _ w keyword maxPrice limit] by blast
  have n3: "\<forall>k \<in> set (searchSuitUpKitsPrecise w keyword maxPrice limit). truthy (kit_nombre k)"
    using searchSuitUpKitsPrecise_named[of _ w keyword maxPrice limit] by blast
  have n4: "\<forall>r \<in> set (candidateRows bound csvData). truthy (r (str ''nombre''))"
    by (simp add: candidateRows_def)
  from t1 t2 t3 t4 t5 t6 l1 l2 l3 n1 n2 n3 n4 show ?thesis
    by (intro conjI)
qed

theorem row_parser_quotes_padding_names_witness:
  "js_split demo_multiline_csv NEWLINE =
     [str ''nombre,descripcion'', str ''Taza,'' @ [QUOTE] @ str ''blanca'',
      str ''grande, bonita'' @ [QUOTE]] \<and>
   length (js_split demo_multiline_csv NEWLINE) = Suc (count_list demo_multiline_csv NEWLINE) \<and>
   str ''grande, bonita'' @ [QUOTE] \<in> set (js_split demo_multiline_csv NEWLINE) \<and>
   NEWLINE \<notin> set (str ''grande, bonita'' @ [QUOTE]) \<and>
   str ''descripcion'' \<in> set (headersOf (js_split demo_multiline_csv NEWLINE)) \<and>
   COMMA \<notin> set (str ''descripcion'') \<and>
   parseLine demo_quoted_line = [str ''Taza'', str ''blanca, grande'', str ''$50''] \<and>
   unquotedCommas demo_quoted_line = [4, 21] \<and>
   length (parseLine demo_quoted_line) = Suc (length (unquotedCommas demo_quoted_line)) \<and>
   QUOTE \<notin> set (str ''blanca, grande'') \<and>
   parseLine_loop (QUOTE # str ''blanca, grande'' @ QUOTE # str '',$50'') [str ''Taza''] [] False =
     parseLine_loop (str '',$50'') [str ''Taza''] ([] @ str ''blanca, grande'') False \<and>
   (3::nat) < length [str ''nombre'', str ''descripcion'', str ''precio'', str ''sku''] \<and>
   length (parseLine demo_quoted_line) \<le> 3 \<and>
   mkRow [str ''nombre'', str ''descripcion'', str ''precio'', str ''sku''] demo_quoted_line
     ([str ''nombre'', str ''descripcion'', str ''precio'', str ''sku''] ! 3) = Some [] \<and>
   map nombre (searchPromoProductsPrecise demo_env_nameless [] None 3) = [Some (str ''Taza'')] \<and>
   (case csvToJsonl demo_env_nameless (str ''airtable/promo.csv'') Promo of
      Inl e \<Rightarrow> [] | Inr docs \<Rightarrow> map (\<lambda>d. map_of (metadata d) (str ''nombre'')) docs) =
     [Some (str ''Taza'')]"
proof -
  have a: "parseLine demo_quoted_line = [str ''Taza'', str ''blanca, grande'', str ''$50'']"
    by code_simp
  have b: "unquotedCommas demo_quoted_line = [4, 21]"
    by code_simp
  have c: "QUOTE \<notin> set (str ''blanca, grande'')"
    by code_simp
  have d: "(3::nat) < length [str ''nombre'', str ''descripcion'', str ''precio'', str ''sku'']"
    by simp
  have e: "length (parseLine demo_quoted_line) \<le> 3"
    by (simp add: a)
  have f: "map nombre (searchPromoProductsPrecise demo_env_nameless [] None 3) = [Some (str ''Taza'')]"
    by code_simp
  have g: "(case csvToJsonl demo_env_nameless (str ''airtable/promo.csv'') Promo of
      Inl e \<Rightarrow> [] | Inr docs \<Rightarrow> map (\<lambda>d. map_of (metadata d) (str ''nombre'')) docs) =
     [Some (str ''Taza'')]"
    by code_simp
  have h: "js_split demo_multiline_csv NEWLINE =
     [str ''nombre,descripcion'', str ''Taza,'' @ [QUOTE] @ str ''blanca'',
      str ''grande, bonita'' @ [QUOTE]]"
    by code_simp
  have j: "str ''grande, bonita'' @ [QUOTE] \<in> set (js_split demo_multiline_csv NEWLINE)"
    by (simp add: h)
  have k: "str ''descripcion'' \<in> set (headersOf (js_split demo_multiline_csv NEWLINE))"
    by code_simp
  from row_parser_quotes_padding_names[where line = demo_quoted_line
      and q = "str ''blanca, grande''" and rest = "str '',$50''" and vals = "[str ''Taza'']"
      and cur = "[]" and i = 3
      and headers = "[str ''nombre'', str ''descripcion'', str ''precio'', str ''sku'']"
      and csvData = demo_multiline_csv]
    a b c d e f g h j k
  show ?thesis by blast
qed

text \<open>
  The claim as worded, for every table text, fails in the two steps that come before
  the row loop. In the first table the field \<open>"blanca\<newline>grande, bonita"\<close> is one quoted
  field of the row \<open>Taza\<close>: the line break at position 31 and the comma at position 38
  both stand inside it (one quote character before them, two in the whole text). The
  text is cut at that line break and the line after it starts with the flag unset, so
  that comma splits: the table yields a second row named \<open>grande\<close>, and the precise
  search returns it as a product. In the second table the header \<open>"precio, MXN"\<close> is
  split at the comma inside its quotes (position 7), the names shift by one, the data
  line \<open>$50,Taza\<close> gets no value under \<open>nombre\<close>, and the row is skipped by the precise
  search and by \<open>csvToJsonl\<close> although its name field is filled.
\<close>

theorem row_parser_table_counterexample:
  "demo_multiline_csv ! 31 = NEWLINE \<and> insideQuotedField demo_multiline_csv 31 \<and>
   demo_multiline_csv ! 38 = COMMA \<and> insideQuotedField demo_multiline_csv 38 \<and>
   count_list demo_multiline_csv QUOTE = 2 \<and>
   map (\<lambda>r. (r (str ''nombre''), r (str ''descripcion''))) (dataRows 200 demo_multiline_csv) =
     [(Some (str ''Taza''), Some (str ''blanca'')), (Some (str ''grande''), Some (str ''bonita''))] \<and>
   map (\<lambda>p. (nombre p, descripcion p))
     (searchPromoProductsPrecise (demo_env\<lparr>promo_csv := Some demo_multiline_csv\<rparr>) [] None 3) =
     [(Some (str ''Taza''), Some (str ''blanca'')), (Some (str ''grande''), Some (str ''bonita''))] \<and>
   demo_quoted_header_csv ! 7 = COMMA \<and> insideQuotedField demo_quoted_header_csv 7 \<and>
   headersOf (js_split demo_quoted_header_csv NEWLINE) =
     [QUOTE # str ''precio'', str ''MXN'' @ [QUOTE], str ''nombre''] \<and>
   parseLine (str ''$50,Taza'') = [str ''$50'', str ''Taza''] \<and>
   searchPromoProductsPrecise (demo_env\<lparr>promo_csv := Some demo_quoted_header_csv\<rparr>) [] None 3 = [] \<and>
   csvToJsonl (demo_env\<lparr>promo_csv := Some demo_quoted_header_csv\<rparr>) (str ''airtable/promo.csv'') Promo =
     Inr []"
  by code_simp

section \<open>The chat endpoint: greeting and unit selection\<close>

text \<open>
  C5 (amended). When the request opens a new conversation (the map holds nothing under
  its id, which is the id sent or a generated one) and its message is missing, empty
  or holds \<open>hola\<close> or \<open>hello\<close> in any case, the handler records the sentinel
  \<open>DISPLAY_BUSINESS_SELECTOR\<close> as the only message, by the Triage agent, leaves Triage
  as the current agent, stores the conversation and asks the completion endpoint
  nothing.
\<close>

theorem initial_greeting_shows_selector:
  "store (convIdOf req w) = None \<and> isGreeting (message req) \<longrightarrow>
   (\<exists>c. POST store req w = (Json c, store(convIdOf req w \<mapsto> c), []) \<and>
        conversation_id c = convIdOf req w \<and>
        messages c = [\<lparr>content = DISPLAY_BUSINESS_SELECTOR, agent = TRIAGE\<rparr>] \<and>
        current_agent c = TRIAGE \<and>
        recordedReply (fst (POST store req w)) =
          Some \<lparr>content = DISPLAY_BUSINESS_SELECTOR, agent = TRIAGE\<rparr> \<and>
        respondingAgent (fst (POST store req w)) = Some TRIAGE)"
  by (simp add: POST_def Let_def newConversation_def recordedReply_def respondingAgent_def)

theorem initial_greeting_shows_selector_witness:
  "Map.empty (convIdOf (demo_request ''Hola, buenas'' []) demo_env) = (None :: ConversationState option) \<and>
   isGreeting (message (demo_request ''Hola, buenas'' [])) \<and>
   recordedReply (fst (POST Map.empty (demo_request ''Hola, buenas'' []) demo_env)) =
     Some \<lparr>content = DISPLAY_BUSINESS_SELECTOR, agent = TRIAGE\<rparr> \<and>
   respondingAgent (fst (POST Map.empty (demo_request ''Hola, buenas'' []) demo_env)) = Some TRIAGE \<and>
   snd (snd (POST Map.empty (demo_request ''Hola, buenas'' []) demo_env)) = []"
proof -
  have g: "isGreeting (message (demo_request ''Hola, buenas'' []))"
    by code_simp
  from initial_greeting_shows_selector[of Map.empty "demo_request ''Hola, buenas'' []" demo_env] g
  show ?thesis by auto
qed

text \<open>
  As worded the claim fails twice. A first message without conversation id that is not
  a greeting is handled by the later rules: \<open>promoselect\<close> switches to the Promoselect
  agent, and a free-form text is sent to the completion endpoint. And a greeting in a
  conversation that already exists is not met with the selector: it is sent to the
  completion endpoint and the model's reply is recorded.
\<close>

theorem greeting_rule_counterexample:
  "req_conversation_id (demo_request ''promoselect'' []) = None \<and>
   respondingAgent (fst (POST Map.empty (demo_request ''promoselect'' []) demo_env)) =
     Some PROMOSELECT_AGENT \<and>
   recordedReply (fst (POST Map.empty (demo_request ''promoselect'' []) demo_env)) =
     Some \<lparr>content = promoselectWelcome, agent = PROMOSELECT_AGENT\<rparr> \<and>
   req_conversation_id (demo_request ''quiero plumas'' []) = None \<and>
   snd (snd (POST Map.empty (demo_request ''quiero plumas'' []) demo_env)) = [CompletionRequest] \<and>
   js_includes (toLowerCase (str ''hola'')) (str ''hola'') \<and>
   snd (snd (POST (serve Map.empty [(demo_request ''promoselect'' [], demo_env)])
       (demo_request ''hola'' ''c1'') demo_env)) =
     [CompletionRequest] \<and>
   recordedReply (fst (POST (serve Map.empty [(demo_request ''promoselect'' [], demo_env)])
       (demo_request ''hola'' ''c1'') demo_env)) =
     Some \<lparr>content = str ''Dime mas'', agent = PROMOSELECT_AGENT\<rparr>"
  by code_simp

text \<open>
  The placeholder endpoint does answer as the claim is worded: the selector whenever
  no conversation id is sent or the message holds a greeting.
\<close>

lemma POST_placeholder_selector:
  assumes "\<not> truthy (req_conversation_id req) \<or>
     (\<exists>m. message req = Some m \<and>
        (js_includes (toLowerCase m) (str ''hola'') \<or> js_includes (toLowerCase m) (str ''hello'')))"
  shows "\<exists>c. POST_placeholder req w = (Json c, []) \<and>
     messages c = [\<lparr>content = DISPLAY_BUSINESS_SELECTOR, agent = TRIAGE\<rparr>] \<and>
     current_agent c = TRIAGE"
  using assms by (auto simp: POST_placeholder_def Let_def newConversation_def)

text \<open>
  C6 (amended). When the initial greeting does not apply (the conversation exists, or
  the message is not a greeting) and the message holds \<open>promoselect\<close> in any case, the
  handler sets the business unit to \<open>promoselect\<close>, makes the Promoselect agent
  current, appends the fixed welcome message and exactly one handoff event, stores the
  conversation and asks the completion endpoint nothing. The same holds for \<open>suitup\<close>
  and the SuitUp agent when the message does not also hold \<open>promoselect\<close>.
\<close>

theorem unit_selection_switches_agent:
  "((store (convIdOf req w) \<noteq> None \<or> \<not> isGreeting (message req)) \<and> message req = Some m \<and>
    js_includes (toLowerCase m) (str ''promoselect'') \<longrightarrow>
    (\<exists>c. POST store req w = (Json c, store(convIdOf req w \<mapsto> c), []) \<and>
         business_unit (conv_context c) = Some (str ''promoselect'') \<and>
         current_agent c = PROMOSELECT_AGENT \<and>
         messages c = messages (addressedConversation store req w) @
           [\<lparr>content = promoselectWelcome, agent = PROMOSELECT_AGENT\<rparr>] \<and>
         events c = events (addressedConversation store req w) @
           [\<lparr>event_id = handoff_event_id w, event_type = str ''handoff'',
             event_agent = PROMOSELECT_AGENT,
             event_content = str ''Switched to Promoselect Agent''\<rparr>])) \<and>
   ((store (convIdOf req w) \<noteq> None \<or> \<not> isGreeting (message req)) \<and> message req = Some m \<and>
    \<not> js_includes (toLowerCase m) (str ''promoselect'') \<and>
    js_includes (toLowerCase m) (str ''suitup'') \<longrightarrow>
    (\<exists>c. POST store req w = (Json c, store(convIdOf req w \<mapsto> c), []) \<and>
         business_unit (conv_context c) = Some (str ''suitup'') \<and>
         current_agent c = SUITUP_AGENT \<and>
         messages c = messages (addressedConversation store req w) @
           [\<lparr>content = suitupWelcome, agent = SUITUP_AGENT\<rparr>] \<and>
         events c = events (addressedConversation store req w) @
           [\<lparr>event_id = handoff_event_id w, event_type = str ''handoff'',
             event_agent = SUITUP_AGENT,
             event_content = str ''Switched to SuitUp Agent''\<rparr>]))"
  by (cases "store (convIdOf req w)")
     (simp_all add: POST_def handleMessage_def Let_def addressedConversation_def)

theorem unit_selection_switches_agent_witness:
  "\<not> isGreeting (message (demo_request ''Quiero PromoSelect'' [])) \<and>
   js_includes (toLowerCase (str ''Quiero PromoSelect'')) (str ''promoselect'') \<and>
   respondingAgent (fst (POST Map.empty (demo_request ''Quiero PromoSelect'' []) demo_env)) =
     Some PROMOSELECT_AGENT \<and>
   snd (snd (POST Map.empty (demo_request ''Quiero PromoSelect'' []) demo_env)) = [] \<and>
   serve Map.empty demo_history (convIdOf (demo_request ''mejor suitup'' ''c1'') demo_env) \<noteq> None \<and>
   \<not> js_includes (toLowerCase (str ''mejor suitup'')) (str ''promoselect'') \<and>
   js_includes (toLowerCase (str ''mejor suitup'')) (str ''suitup'') \<and>
   respondingAgent (fst (POST (serve Map.empty demo_history) (demo_request ''mejor suitup'' ''c1'') demo_env)) =
     Some SUITUP_AGENT \<and>
   snd (snd (POST (serve Map.empty demo_history) (demo_request ''mejor suitup'' ''c1'') demo_env)) = []"
proof -
  have a: "\<not> isGreeting (message (demo_request ''Quiero PromoSelect'' []))" by code_simp
  have b: "js_includes (toLowerCase (str ''Quiero PromoSelect'')) (str ''promoselect'')" by code_simp
  have c: "serve Map.empty demo_history (convIdOf (demo_request ''mejor suitup'' ''c1'') demo_env) \<noteq> None"
    by code_simp
  have d: "\<not> js_includes (toLowerCase (str ''mejor suitup'')) (str ''promoselect'')" by code_simp
  have e: "js_includes (toLowerCase (str ''mejor suitup'')) (str ''suitup'')" by code_simp
  have m1: "message (demo_request ''Quiero PromoSelect'' []) = Some (str ''Quiero PromoSelect'')"
    and m2: "message (demo_request ''mejor suitup'' ''c1'') = Some (str ''mejor suitup'')"
    by (simp_all add: demo_request_def)
  from unit_selection_switches_agent[of Map.empty "demo_request ''Quiero PromoSelect'' []" demo_env
      "str ''Quiero PromoSelect''"] a b m1
  have p: "respondingAgent (fst (POST Map.empty (demo_request ''Quiero PromoSelect'' []) demo_env)) =
       Some PROMOSELECT_AGENT \<and>
     snd (snd (POST Map.empty (demo_request ''Quiero PromoSelect'' []) demo_env)) = []"
    by (auto simp: respondingAgent_def)
  from unit_selection_switches_agent[of "serve Map.empty demo_history"
      "demo_request ''mejor suitup'' ''c1''" demo_env "str ''mejor suitup''"] c d e m2
  have q: "respondingAgent (fst (POST (serve Map.empty demo_history)
         (demo_request ''mejor suitup'' ''c1'') demo_env)) = Some SUITUP_AGENT \<and>
     snd (snd (POST (serve Map.empty demo_history) (demo_request ''mejor suitup'' ''c1'') demo_env)) = []"
    by (auto simp: respondingAgent_def)
  from a b c d e p q show ?thesis by blast
qed

text \<open>
  As worded the claim fails twice: in a first message that is also a greeting the
  greeting wins (the selector is shown, no unit is set, no handoff event is added),
  and in a message that names both units \<open>promoselect\<close> wins.
\<close>

theorem unit_selection_counterexample:
  "js_includes (toLowerCase (str ''hola, quiero promoselect'')) (str ''promoselect'') \<and>
   respondingAgent (fst (POST Map.empty (demo_request ''hola, quiero promoselect'' []) demo_env)) =
     Some TRIAGE \<and>
   recordedReply (fst (POST Map.empty (demo_request ''hola, quiero promoselect'' []) demo_env)) =
     Some \<lparr>content = DISPLAY_BUSINESS_SELECTOR, agent = TRIAGE\<rparr> \<and>
   map_option (\<lambda>c. (business_unit (conv_context c), length (events c)))
     (fst (snd (POST Map.empty (demo_request ''hola, quiero promoselect'' []) demo_env)) (str ''c1'')) =
     Some (None, 1) \<and>
   js_includes (toLowerCase (str ''suitup o promoselect'')) (str ''suitup'') \<and>
   respondingAgent (fst (POST (serve Map.empty demo_history)
       (demo_request ''suitup o promoselect'' ''c1'') demo_env)) = Some PROMOSELECT_AGENT"
  by code_simp

section \<open>The chat endpoint: slots\<close>

lemma matchDigits_nonempty:
  assumes "matchDigits m = Some d"
  shows "d \<noteq> []"
proof (cases "dropWhile (\<lambda>c. \<not> isDigit c) m")
  case Nil
  with assms show ?thesis by (simp add: matchDigits_def)
next
  case (Cons a list)
  with hd_dropWhile[of "\<lambda>c. \<not> isDigit c" m] have "isDigit a" by simp
  with assms Cons show ?thesis by (auto simp: matchDigits_def)
qed

lemma matchDigits_digits: "matchDigits m = Some d \<Longrightarrow> list_all isDigit d"
  by (auto simp: matchDigits_def Let_def list_all_iff split: if_splits dest: set_takeWhileD)

lemma extractSlots_wellFormed:
  "slotsWellFormed ctx \<Longrightarrow> slotsWellFormed (extractSlots ctx m)"
  by (auto simp: extractSlots_def slotsWellFormed_def Let_def truthy_def
      split: option.splits dest: matchDigits_nonempty matchDigits_digits)

lemma extractSlots_kept:
  "slotsWellFormed ctx \<Longrightarrow> slotsKept ctx (extractSlots ctx m)"
  by (auto simp: extractSlots_def slotsWellFormed_def slotsKept_def Let_def truthy_def
      split: option.splits)

lemma slotsKept_refl: "slotsKept ctx ctx"
  by (simp add: slotsKept_def)

lemma searchOrExtract_context:
  "fst (snd (searchOrExtract w ctx m reply)) = ctx \<or>
   fst (snd (searchOrExtract w ctx m reply)) = extractSlots ctx m"
  by (simp add: searchOrExtract_def Let_def split: option.splits)

text \<open>What one call of the handler does to the conversation it was given.\<close>

lemma handleMessage_store:
  "fst (snd (handleMessage store convId conversation msg w)) = store \<or>
   (\<exists>c. fst (snd (handleMessage store convId conversation msg w)) = store(convId \<mapsto> c) \<and>
        (conv_context c = conv_context conversation \<or>
         (\<exists>m. conv_context c = extractSlots (conv_context conversation) m) \<or>
         conv_context c = (conv_context conversation)\<lparr>business_unit := Some (str ''promoselect'')\<rparr> \<or>
         conv_context c = (conv_context conversation)\<lparr>business_unit := Some (str ''suitup'')\<rparr>))"
proof (cases msg)
  case None
  then show ?thesis by (simp add: handleMessage_def)
next
  case (Some m)
  show ?thesis
  proof (cases "js_includes (toLowerCase m) (str ''promoselect'') \<or>
                js_includes (toLowerCase m) (str ''suitup'')")
    case True
    with Some show ?thesis by (auto simp: handleMessage_def Let_def)
  next
    case False
    show ?thesis
    proof (cases "chat_completion w")
      case (Rejected e)
      with Some False show ?thesis by (simp add: handleMessage_def)
    next
      case (Resolved choices)
      obtain r ctx calls where
        s: "searchOrExtract w (conv_context conversation) m (completionText choices) = (r, ctx, calls)"
        by (cases "searchOrExtract w (conv_context conversation) m (completionText choices)") auto
      with searchOrExtract_context[of w "conv_context conversation" m "completionText choices"]
      have "ctx = conv_context conversation \<or> ctx = extractSlots (conv_context conversation) m"
        by simp
      then have cx: "conv_context (conversation\<lparr>conv_context := ctx, messages := messages conversation @
            [\<lparr>content = r, agent = current_agent conversation\<rparr>]\<rparr>) = conv_context conversation \<or>
          (\<exists>m. conv_context (conversation\<lparr>conv_context := ctx, messages := messages conversation @
            [\<lparr>content = r, agent = current_agent conversation\<rparr>]\<rparr>) =
             extractSlots (conv_context conversation) m)"
        by auto
      have "fst (snd (handleMessage store convId conversation msg w)) =
          store(convId \<mapsto> conversation\<lparr>conv_context := ctx, messages := messages conversation @
            [\<lparr>content = r, agent = current_agent conversation\<rparr>]\<rparr>)"
        using Some False Resolved s by (simp add: handleMessage_def Let_def)
      with cx show ?thesis by blast
    qed
  qed
qed

lemma context_step_ok:
  assumes "slotsWellFormed ctx"
    and "ctx' = ctx \<or> (\<exists>m. ctx' = extractSlots ctx m) \<or>
         ctx' = ctx\<lparr>business_unit := Some (str ''promoselect'')\<rparr> \<or>
         ctx' = ctx\<lparr>business_unit := Some (str ''suitup'')\<rparr>"
  shows "slotsWellFormed ctx' \<and> slotsKept ctx ctx'"
  using assms(2)
proof (elim disjE exE)
  assume "ctx' = ctx"
  with assms(1) show ?thesis by (simp add: slotsKept_refl)
next
  fix m assume "ctx' = extractSlots ctx m"
  with assms(1) show ?thesis by (simp add: extractSlots_wellFormed extractSlots_kept)
next
  assume "ctx' = ctx\<lparr>business_unit := Some (str ''promoselect'')\<rparr>"
  with assms(1) show ?thesis by (simp add: slotsWellFormed_def slotsKept_def)
next
  assume "ctx' = ctx\<lparr>business_unit := Some (str ''suitup'')\<rparr>"
  with assms(1) show ?thesis by (simp add: slotsWellFormed_def slotsKept_def)
qed

lemma newConversation_wellFormed: "slotsWellFormed (conv_context (newConversation convId w))"
  by (simp add: newConversation_def slotsWellFormed_def)

lemma POST_step:
  assumes wf: "storeWellFormed store"
  shows "storeWellFormed (fst (snd (POST store req w))) \<and>
     (\<forall>cid c. store cid = Some c \<longrightarrow>
        (\<exists>c'. fst (snd (POST store req w)) cid = Some c' \<and>
              slotsKept (conv_context c) (conv_context c')))"
proof (cases "store (convIdOf req w)")
  case None
  show ?thesis
  proof (cases "isGreeting (message req)")
    case True
    with None wf show ?thesis
      by (auto simp: POST_def Let_def storeWellFormed_def newConversation_def
          slotsWellFormed_def slotsKept_refl)
  next
    case False
    from handleMessage_store[of store "convIdOf req w" "newConversation (convIdOf req w) w"
        "message req" w]
    show ?thesis
    proof
      assume "fst (snd (handleMessage store (convIdOf req w)
          (newConversation (convIdOf req w) w) (message req) w)) = store"
      with None False wf show ?thesis
        by (auto simp: POST_def Let_def storeWellFormed_def slotsKept_refl)
    next
      assume "\<exists>c. fst (snd (handleMessage store (convIdOf req w)
            (newConversation (convIdOf req w) w) (message req) w)) = store(convIdOf req w \<mapsto> c) \<and>
          (conv_context c = conv_context (newConversation (convIdOf req w) w) \<or>
           (\<exists>m. conv_context c = extractSlots (conv_context (newConversation (convIdOf req w) w)) m) \<or>
           conv_context c = (conv_context (newConversation (convIdOf req w) w))
             \<lparr>business_unit := Some (str ''promoselect'')\<rparr> \<or>
           conv_context c = (conv_context (newConversation (convIdOf req w) w))
             \<lparr>business_unit := Some (str ''suitup'')\<rparr>)"
      then obtain c where
        st: "fst (snd (handleMessage store (convIdOf req w)
            (newConversation (convIdOf req w) w) (message req) w)) = store(convIdOf req w \<mapsto> c)"
        and cx: "conv_context c = conv_context (newConversation (convIdOf req w) w) \<or>
           (\<exists>m. conv_context c = extractSlots (conv_context (newConversation (convIdOf req w) w)) m) \<or>
           conv_context c = (conv_context (newConversation (convIdOf req w) w))
             \<lparr>business_unit := Some (str ''promoselect'')\<rparr> \<or>
           conv_context c = (conv_context (newConversation (convIdOf req w) w))
             \<lparr>business_unit := Some (str ''suitup'')\<rparr>"
        by blast
      from context_step_ok[OF newConversation_wellFormed cx]
      have "slotsWellFormed (conv_context c)" by simp
      with None False wf st show ?thesis
        by (auto simp: POST_def Let_def storeWellFormed_def slotsKept_refl)
    qed
  qed
next
  case (Some conversation)
  with wf have cwf: "slotsWellFormed (conv_context conversation)"
    by (auto simp: storeWellFormed_def)
  from handleMessage_store[of store "convIdOf req w" conversation "message req" w]
  show ?thesis
  proof
    assume "fst (snd (handleMessage store (convIdOf req w) conversation (message req) w)) = store"
    with Some wf show ?thesis
      by (auto simp: POST_def Let_def storeWellFormed_def slotsKept_refl)
  next
    assume "\<exists>c. fst (snd (handleMessage store (convIdOf req w) conversation (message req) w)) =
          store(convIdOf req w \<mapsto> c) \<and>
        (conv_context c = conv_context conversation \<or>
         (\<exists>m. conv_context c = extractSlots (conv_context conversation) m) \<or>
         conv_context c = (conv_context conversation)\<lparr>business_unit := Some (str ''promoselect'')\<rparr> \<or>
         conv_context c = (conv_context conversation)\<lparr>business_unit := Some (str ''suitup'')\<rparr>)"
    then obtain c where
      st: "fst (snd (handleMessage store (convIdOf req w) conversation (message req) w)) =
          store(convIdOf req w \<mapsto> c)"
      and cx: "conv_context c = conv_context conversation \<or>
         (\<exists>m. conv_context c = extractSlots (conv_context conversation) m) \<or>
         conv_context c = (conv_context conversation)\<lparr>business_unit := Some (str ''promoselect'')\<rparr> \<or>
         conv_context c = (conv_context conversation)\<lparr>business_unit := Some (str ''suitup'')\<rparr>"
      by blast
    from context_step_ok[OF cwf cx]
    have ok: "slotsWellFormed (conv_context c)" "slotsKept (conv_context conversation) (conv_context c)"
      by simp_all
    with Some wf st show ?thesis
      by (auto simp: POST_def Let_def storeWellFormed_def slotsKept_refl)
  qed
qed


lemma slotsKept_trans: "slotsKept a b \<Longrightarrow> slotsKept b c \<Longrightarrow> slotsKept a c"
  by (simp add: slotsKept_def)

lemma serve_append: "serve store (rs @ rs') = serve (serve store rs) rs'"
  by (induction rs arbitrary: store) auto

lemma serve_keeps:
  "storeWellFormed store \<Longrightarrow>
   storeWellFormed (serve store rs) \<and>
   (\<forall>cid c. store cid = Some c \<longrightarrow>
      (\<exists>c'. serve store rs cid = Some c' \<and> slotsKept (conv_context c) (conv_context c')))"
proof (induction rs arbitrary: store)
  case Nil
  then show ?case by (simp add: slotsKept_refl)
next
  case (Cons a rs)
  obtain req w where a: "a = (req, w)" by (cases a)
  from POST_step[OF Cons.prems, of req w]
  have wf': "storeWellFormed (fst (snd (POST store req w)))"
    and step: "\<And>cid c. store cid = Some c \<Longrightarrow>
       \<exists>c'. fst (snd (POST store req w)) cid = Some c' \<and> slotsKept (conv_context c) (conv_context c')"
    by blast+
  from Cons.IH[OF wf']
  have wf'': "storeWellFormed (serve (fst (snd (POST store req w))) rs)"
    and rest: "\<And>cid c. fst (snd (POST store req w)) cid = Some c \<Longrightarrow>
       \<exists>c'. serve (fst (snd (POST store req w))) rs cid = Some c' \<and>
            slotsKept (conv_context c) (conv_context c')"
    by blast+
  show ?case
  proof (intro conjI allI impI)
    show "storeWellFormed (serve store (a # rs))" using wf'' a by simp
  next
    fix cid c assume "store cid = Some c"
    from step[OF this] obtain c' where
      c': "fst (snd (POST store req w)) cid = Some c'" "slotsKept (conv_context c) (conv_context c')"
      by blast
    from rest[OF c'(1)] obtain c'' where
      "serve (fst (snd (POST store req w))) rs cid = Some c''"
      "slotsKept (conv_context c') (conv_context c'')"
      by blast
    with c'(2) a show "\<exists>c'. serve store (a # rs) cid = Some c' \<and>
        slotsKept (conv_context c) (conv_context c')"
      by (auto intro: slotsKept_trans)
  qed
qed

lemma storeWellFormed_empty: "storeWellFormed Map.empty"
  by (simp add: storeWellFormed_def)

lemma served_wellFormed: "storeWellFormed (serve Map.empty history)"
  using serve_keeps[OF storeWellFormed_empty] by blast

text \<open>
  C3. In every conversation, whatever requests are served: once the description slot
  holds a value it holds that value after every later request, and so does the budget
  slot (each is set at most once, the first value stored staying); and once the
  business unit is set it is never \<open>null\<close> again.
\<close>

theorem slots_set_once_unit_never_cleared:
  "serve Map.empty history cid = Some c \<longrightarrow>
   (\<exists>c'. serve Map.empty (history @ later) cid = Some c' \<and>
      (\<forall>d. ctx_descripcion (conv_context c) = Some d \<longrightarrow>
           ctx_descripcion (conv_context c') = Some d) \<and>
      (\<forall>p. ctx_precio (conv_context c) = Some p \<longrightarrow> ctx_precio (conv_context c') = Some p) \<and>
      (business_unit (conv_context c) \<noteq> None \<longrightarrow> business_unit (conv_context c') \<noteq> None))"
  using serve_keeps[OF served_wellFormed, of history later]
  by (simp add: serve_append slotsKept_def)

theorem slots_set_once_unit_never_cleared_witness:
  "map_option (\<lambda>c. (business_unit (conv_context c), ctx_descripcion (conv_context c),
       ctx_precio (conv_context c)))
     (serve Map.empty demo_history (str ''c1'')) =
     Some (Some (str ''promoselect''), Some (str ''pluma''), Some (str ''100'')) \<and>
   (\<exists>c'. serve Map.empty (demo_history @ [(demo_request ''gorras rojas por 300'' ''c1'', demo_env)])
           (str ''c1'') = Some c' \<and>
         ctx_descripcion (conv_context c') = Some (str ''pluma'') \<and>
         ctx_precio (conv_context c') = Some (str ''100'') \<and>
         business_unit (conv_context c') \<noteq> None)"
proof -
  have e: "map_option (\<lambda>c. (business_unit (conv_context c), ctx_descripcion (conv_context c),
       ctx_precio (conv_context c)))
     (serve Map.empty demo_history (str ''c1'')) =
     Some (Some (str ''promoselect''), Some (str ''pluma''), Some (str ''100''))"
    by code_simp
  then obtain c where c: "serve Map.empty demo_history (str ''c1'') = Some c"
    "business_unit (conv_context c) = Some (str ''promoselect'')"
    "ctx_descripcion (conv_context c) = Some (str ''pluma'')"
    "ctx_precio (conv_context c) = Some (str ''100'')"
    by auto
  from slots_set_once_unit_never_cleared[of demo_history "str ''c1''" c
      "[(demo_request ''gorras rojas por 300'' ''c1'', demo_env)]"] c e
  show ?thesis by auto
qed

section \<open>The chat endpoint: the search replaces the model's reply\<close>

lemma served_business_unit:
  assumes "serve Map.empty history cid = Some c" and "business_unit (conv_context c) = Some bu"
  shows "bu = str ''promoselect'' \<or> bu = str ''suitup''"
proof -
  from served_wellFormed[of history] assms(1)
  have "slotsWellFormed (conv_context c)"
    unfolding storeWellFormed_def by blast
  with assms(2) show ?thesis
    by (simp add: slotsWellFormed_def)
qed

lemma served_budget_digits:
  assumes "serve Map.empty history cid = Some c" and "ctx_precio (conv_context c) = Some p"
  shows "keepDigits p = p"
proof -
  from served_wellFormed[of history] assms(1)
  have "slotsWellFormed (conv_context c)"
    unfolding storeWellFormed_def by blast
  with assms(2) have "list_all isDigit p"
    by (simp add: slotsWellFormed_def)
  then show ?thesis
    by (simp add: keepDigits_def list_all_iff)
qed

text \<open>
  C4 (amended). In a conversation whose business unit, description and budget were all
  stored before the request, a message on the free-form path (it names no unit) first
  goes to the dialogue completion. When the completion returns, whatever it holds,
  the message is answered with the output of hybrid retrieval for the stored
  description and the number parsed from the stored budget (a run of digits, which the
  handler's removal of non-digits leaves as it is), with the default limit 3: that
  text, not the model's reply, is the message recorded, by the current agent, the
  context is left as it was, and the calls made are the completion request followed by
  those of the retrieval. When the completion is rejected the handler answers with
  status 500: no reply is recorded, the conversations are left as they were and no
  search is run.
\<close>

theorem stored_slots_trigger_search:
  "store = serve Map.empty history \<and> store (convIdOf req w) = Some conv \<and>
   business_unit (conv_context conv) = Some bu \<and> bu \<noteq> [] \<and>
   ctx_descripcion (conv_context conv) = Some d \<and> d \<noteq> [] \<and>
   ctx_precio (conv_context conv) = Some p \<and> p \<noteq> [] \<and>
   message req = Some m \<and>
   \<not> js_includes (toLowerCase m) (str ''promoselect'') \<and>
   \<not> js_includes (toLowerCase m) (str ''suitup'') \<longrightarrow>
   keepDigits p = p \<and>
   (\<forall>choices. chat_completion w = Resolved choices \<longrightarrow>
      (\<exists>c. fst (POST store req w) = Json c \<and>
           fst (snd (POST store req w)) = store(convIdOf req w \<mapsto> c) \<and>
           snd (snd (POST store req w)) =
             CompletionRequest #
             snd (if bu = str ''promoselect''
                  then searchAndFormatProducts w d (Some (parseFloat p)) 3
                  else searchAndFormatKits w d (Some (parseFloat p)) 3) \<and>
           conv_context c = conv_context conv \<and>
           current_agent c = current_agent conv \<and>
           messages c = messages conv @
             [\<lparr>content =
                 fst (if bu = str ''promoselect''
                      then searchAndFormatProducts w d (Some (parseFloat p)) 3
                      else searchAndFormatKits w d (Some (parseFloat p)) 3),
               agent = current_agent conv\<rparr>])) \<and>
   (\<forall>e. chat_completion w = Rejected e \<longrightarrow>
      POST store req w = (InternalServerError (ApiError e), store, [CompletionRequest]))"
proof (intro impI, elim conjE)
  assume st: "store = serve Map.empty history"
    and cv: "store (convIdOf req w) = Some conv"
    and bu: "business_unit (conv_context conv) = Some bu" "bu \<noteq> []"
    and d: "ctx_descripcion (conv_context conv) = Some d" "d \<noteq> []"
    and p: "ctx_precio (conv_context conv) = Some p" "p \<noteq> []"
    and m: "message req = Some m"
      "\<not> js_includes (toLowerCase m) (str ''promoselect'')"
      "\<not> js_includes (toLowerCase m) (str ''suitup'')"
  from served_business_unit[of history "convIdOf req w" conv bu] st cv bu
  have unit: "bu = str ''promoselect'' \<or> bu = str ''suitup''" by simp
  have ne: "str ''suitup'' \<noteq> str ''promoselect''" by code_simp
  from served_budget_digits[of history "convIdOf req w" conv p] st cv p
  have kd: "keepDigits p = p" by simp
  have resolved: "\<exists>c. fst (POST store req w) = Json c \<and>
        fst (snd (POST store req w)) = store(convIdOf req w \<mapsto> c) \<and>
        snd (snd (POST store req w)) =
          CompletionRequest #
          snd (if bu = str ''promoselect''
               then searchAndFormatProducts w d (Some (parseFloat p)) 3
               else searchAndFormatKits w d (Some (parseFloat p)) 3) \<and>
        conv_context c = conv_context conv \<and>
        current_agent c = current_agent conv \<and>
        messages c = messages conv @
          [\<lparr>content =
              fst (if bu = str ''promoselect''
                   then searchAndFormatProducts w d (Some (parseFloat p)) 3
                   else searchAndFormatKits w d (Some (parseFloat p)) 3),
            agent = current_agent conv\<rparr>]"
    if cc: "chat_completion w = Resolved choices" for choices
    using unit
  proof
    assume "bu = str ''promoselect''"
    with cv bu d p m cc kd show ?thesis
      by (simp add: POST_def handleMessage_def searchOrExtract_def Let_def)
  next
    assume "bu = str ''suitup''"
    with cv bu d p m cc ne kd show ?thesis
      by (simp add: POST_def handleMessage_def searchOrExtract_def Let_def)
  qed
  have rejected: "POST store req w = (InternalServerError (ApiError e), store, [CompletionRequest])"
    if cc: "chat_completion w = Rejected e" for e
    using cv m cc by (simp add: POST_def handleMessage_def Let_def)
  from kd resolved rejected
  show "keepDigits p = p \<and>
   (\<forall>choices. chat_completion w = Resolved choices \<longrightarrow>
      (\<exists>c. fst (POST store req w) = Json c \<and>
           fst (snd (POST store req w)) = store(convIdOf req w \<mapsto> c) \<and>
           snd (snd (POST store req w)) =
             CompletionRequest #
             snd (if bu = str ''promoselect''
                  then searchAndFormatProducts w d (Some (parseFloat p)) 3
                  else searchAndFormatKits w d (Some (parseFloat p)) 3) \<and>
           conv_context c = conv_context conv \<and>
           current_agent c = current_agent conv \<and>
           messages c = messages conv @
             [\<lparr>content =
                 fst (if bu = str ''promoselect''
                      then searchAndFormatProducts w d (Some (parseFloat p)) 3
                      else searchAndFormatKits w d (Some (parseFloat p)) 3),
               agent = current_agent conv\<rparr>])) \<and>
   (\<forall>e. chat_completion w = Rejected e \<longrightarrow>
      POST store req w = (InternalServerError (ApiError e), store, [CompletionRequest]))"
    by blast
qed

theorem stored_slots_trigger_search_witness:
  "map_option (\<lambda>c. (business_unit (conv_context c), ctx_descripcion (conv_context c),
       ctx_precio (conv_context c), current_agent c))
     (serve Map.empty demo_history (convIdOf (demo_request ''lo que sea'' ''c1'') demo_env)) =
     Some (Some (str ''promoselect''), Some (str ''pluma''), Some (str ''100''), PROMOSELECT_AGENT) \<and>
   message (demo_request ''lo que sea'' ''c1'') = Some (str ''lo que sea'') \<and>
   \<not> js_includes (toLowerCase (str ''lo que sea'')) (str ''promoselect'') \<and>
   \<not> js_includes (toLowerCase (str ''lo que sea'')) (str ''suitup'') \<and>
   chat_completion demo_env = Resolved [Some (str ''Dime mas'')] \<and>
   parseFloat (str ''100'') = Fin 100 \<and>
   recordedReply (fst (POST (serve Map.empty demo_history) (demo_request ''lo que sea'' ''c1'') demo_env)) =
     Some \<lparr>content = fst (searchAndFormatProducts demo_env (str ''pluma'') (Some (Fin 100)) 3),
           agent = PROMOSELECT_AGENT\<rparr> \<and>
   fst (searchAndFormatProducts demo_env (str ''pluma'') (Some (Fin 100)) 3) =
     formatProductResults (searchPromoProductsPrecise demo_env (str ''pluma'') (Some (Fin 100)) 3) \<and>
   map nombre (searchPromoProductsPrecise demo_env (str ''pluma'') (Some (Fin 100)) 3) =
     [Some (str ''Pluma'')] \<and>
   snd (snd (POST (serve Map.empty demo_history) (demo_request ''lo que sea'' ''c1'') demo_env)) =
     [CompletionRequest] \<and>
   chat_completion demo_env_down = Rejected (str ''timeout'') \<and>
   POST (serve Map.empty demo_history) (demo_request ''lo que sea'' ''c1'') demo_env_down =
     (InternalServerError (ApiError (str ''timeout'')), serve Map.empty demo_history,
      [CompletionRequest])"
proof -
  have e: "map_option (\<lambda>c. (business_unit (conv_context c), ctx_descripcion (conv_context c),
       ctx_precio (conv_context c), current_agent c))
     (serve Map.empty demo_history (convIdOf (demo_request ''lo que sea'' ''c1'') demo_env)) =
     Some (Some (str ''promoselect''), Some (str ''pluma''), Some (str ''100''), PROMOSELECT_AGENT)"
    by code_simp
  then obtain conv where conv:
    "serve Map.empty demo_history (convIdOf (demo_request ''lo que sea'' ''c1'') demo_env) = Some conv"
    "business_unit (conv_context conv) = Some (str ''promoselect'')"
    "ctx_descripcion (conv_context conv) = Some (str ''pluma'')"
    "ctx_precio (conv_context conv) = Some (str ''100'')"
    "current_agent conv = PROMOSELECT_AGENT"
    by auto
  have same: "convIdOf (demo_request ''lo que sea'' ''c1'') demo_env_down =
      convIdOf (demo_request ''lo que sea'' ''c1'') demo_env"
    by (simp add: convIdOf_def demo_env_down_def split: option.splits)
  have ne: "str ''promoselect'' \<noteq> []" "str ''pluma'' \<noteq> []" "str ''100'' \<noteq> []"
    by (simp_all add: str_def)
  have msg: "message (demo_request ''lo que sea'' ''c1'') = Some (str ''lo que sea'')"
    by (simp add: demo_request_def)
  have n1: "\<not> js_includes (toLowerCase (str ''lo que sea'')) (str ''promoselect'')" by code_simp
  have n2: "\<not> js_includes (toLowerCase (str ''lo que sea'')) (str ''suitup'')" by code_simp
  have cc: "chat_completion demo_env = Resolved [Some (str ''Dime mas'')]"
    by (simp add: demo_env_def)
  have cd: "chat_completion demo_env_down = Rejected (str ''timeout'')"
    by (simp add: demo_env_down_def)
  have pf: "parseFloat (str ''100'') = Fin 100" by code_simp
  have pr: "map nombre (searchPromoProductsPrecise demo_env (str ''pluma'') (Some (Fin 100)) 3) =
     [Some (str ''Pluma'')]" by code_simp
  then have nonempty: "searchPromoProductsPrecise demo_env (str ''pluma'') (Some (Fin 100)) 3 \<noteq> []"
    by auto
  then have hy: "fst (searchAndFormatProducts demo_env (str ''pluma'') (Some (Fin 100)) 3) =
     formatProductResults (searchPromoProductsPrecise demo_env (str ''pluma'') (Some (Fin 100)) 3)"
    by (simp add: searchAndFormatProducts_def Let_def)
  from nonempty have calls: "snd (searchAndFormatProducts demo_env (str ''pluma'') (Some (Fin 100)) 3) = []"
    by (simp add: searchAndFormatProducts_def Let_def)
  from stored_slots_trigger_search[of "serve Map.empty demo_history" demo_history
      "demo_request ''lo que sea'' ''c1''" demo_env conv "str ''promoselect''" "str ''pluma''"
      "str ''100''" "str ''lo que sea''"]
    conv ne msg n1 n2 cc
  obtain c where c: "fst (POST (serve Map.empty demo_history) (demo_request ''lo que sea'' ''c1'') demo_env) = Json c"
    "snd (snd (POST (serve Map.empty demo_history) (demo_request ''lo que sea'' ''c1'') demo_env)) =
       CompletionRequest #
       snd (searchAndFormatProducts demo_env (str ''pluma'') (Some (parseFloat (str ''100''))) 3)"
    "messages c = messages conv @
       [\<lparr>content = fst (searchAndFormatProducts demo_env (str ''pluma'')
                         (Some (parseFloat (str ''100''))) 3),
         agent = current_agent conv\<rparr>]"
    by auto
  then have reply: "recordedReply (fst (POST (serve Map.empty demo_history)
       (demo_request ''lo que sea'' ''c1'') demo_env)) =
     Some \<lparr>content = fst (searchAndFormatProducts demo_env (str ''pluma'') (Some (Fin 100)) 3),
           agent = PROMOSELECT_AGENT\<rparr>"
    using conv(5) pf by (simp add: recordedReply_def)
  from c(2) pf calls
  have eff: "snd (snd (POST (serve Map.empty demo_history) (demo_request ''lo que sea'' ''c1'') demo_env)) =
     [CompletionRequest]"
    by simp
  from stored_slots_trigger_search[of "serve Map.empty demo_history" demo_history
      "demo_request ''lo que sea'' ''c1''" demo_env_down conv "str ''promoselect''" "str ''pluma''"
      "str ''100''" "str ''lo que sea''"]
    conv ne msg n1 n2 cd same
  have down: "POST (serve Map.empty demo_history) (demo_request ''lo que sea'' ''c1'') demo_env_down =
     (InternalServerError (ApiError (str ''timeout'')), serve Map.empty demo_history,
      [CompletionRequest])"
    by simp
  from e msg n1 n2 cc pf reply hy pr eff cd down show ?thesis by blast
qed

text \<open>
  The claim as worded, for every message on the free-form path, fails when the
  dialogue completion is rejected. Conversation \<open>c1\<close> has its unit, description and
  budget stored and the message names no unit, yet the handler answers with status
  500: no reply is recorded, the messages of the stored conversation are as before,
  and the only call made is the completion request, so hybrid retrieval never ran;
  it would have found the pen.
\<close>

theorem stored_slots_rejected_completion_counterexample:
  "map_option (\<lambda>c. (business_unit (conv_context c), ctx_descripcion (conv_context c),
       ctx_precio (conv_context c)))
     (serve Map.empty demo_history (str ''c1'')) =
     Some (Some (str ''promoselect''), Some (str ''pluma''), Some (str ''100'')) \<and>
   convIdOf (demo_request ''lo que sea'' ''c1'') demo_env_down = str ''c1'' \<and>
   message (demo_request ''lo que sea'' ''c1'') = Some (str ''lo que sea'') \<and>
   \<not> js_includes (toLowerCase (str ''lo que sea'')) (str ''promoselect'') \<and>
   \<not> js_includes (toLowerCase (str ''lo que sea'')) (str ''suitup'') \<and>
   fst (POST (serve Map.empty demo_history) (demo_request ''lo que sea'' ''c1'') demo_env_down) =
     InternalServerError (ApiError (str ''timeout'')) \<and>
   recordedReply
     (fst (POST (serve Map.empty demo_history) (demo_request ''lo que sea'' ''c1'') demo_env_down)) =
     None \<and>
   snd (snd (POST (serve Map.empty demo_history) (demo_request ''lo que sea'' ''c1'') demo_env_down)) =
     [CompletionRequest] \<and>
   map_option messages
     (fst (snd (POST (serve Map.empty demo_history) (demo_request ''lo que sea'' ''c1'') demo_env_down))
        (str ''c1'')) =
     map_option messages (serve Map.empty demo_history (str ''c1'')) \<and>
   map nombre (searchPromoProductsPrecise demo_env_down (str ''pluma'') (Some (Fin 100)) 3) =
     [Some (str ''Pluma'')]"
  by code_simp

end
